theory Spec2Isabelle
  imports Complex_Main
begin

section \<open>Text primitives of the email scanner\<close>

text \<open>
  Python strings are modelled as \<open>string\<close> (lists of 8-bit characters); the model covers
  ASCII text.  \<open>lower\<close> is \<^verbatim>\<open>str.lower()\<close>, \<open>strip\<close> is \<^verbatim>\<open>str.strip()\<close>,
  \<open>contains_str s p\<close> is the Python test \<^verbatim>\<open>p in s\<close>, \<open>is_space\<close> is the class
  \<^verbatim>\<open>\s\<close> of the \<^verbatim>\<open>re\<close> module.
\<close>

definition upper_chars :: string where
  "upper_chars = ''ABCDEFGHIJKLMNOPQRSTUVWXYZ''"

definition lower_chars :: string where
  "lower_chars = ''abcdefghijklmnopqrstuvwxyz''"

definition digit_chars :: string where
  "digit_chars = ''0123456789''"

definition lower_char :: "char \<Rightarrow> char" where
  "lower_char c = (case map_of (zip upper_chars lower_chars) c of Some d \<Rightarrow> d | None \<Rightarrow> c)"

definition lower :: "string \<Rightarrow> string" where
  "lower s = map lower_char s"

definition is_space :: "char \<Rightarrow> bool" where
  "is_space c =
     (c \<in> set [CHR 0x09, CHR 0x0A, CHR 0x0B, CHR 0x0C, CHR 0x0D,
                CHR 0x1C, CHR 0x1D, CHR 0x1E, CHR 0x1F, CHR '' ''])"

definition is_alnum :: "char \<Rightarrow> bool" where
  "is_alnum c = (c \<in> set (lower_chars @ upper_chars @ digit_chars))"

definition strip :: "string \<Rightarrow> string" where
  "strip s = rev (dropWhile is_space (rev (dropWhile is_space s)))"

fun starts_with :: "string \<Rightarrow> string \<Rightarrow> bool" where
  "starts_with s [] = True"
| "starts_with [] (p # ps) = False"
| "starts_with (c # cs) (p # ps) = (c = p \<and> starts_with cs ps)"

fun contains_str :: "string \<Rightarrow> string \<Rightarrow> bool" where
  "contains_str [] p = (p = [])"
| "contains_str (c # cs) p = (starts_with (c # cs) p \<or> contains_str cs p)"

text \<open>\<^verbatim>\<open>str.split()\<close> without argument: the maximal runs of non-whitespace characters.\<close>

fun split_ws_aux :: "string \<Rightarrow> string \<Rightarrow> string list" where
  "split_ws_aux cur [] = (if cur = [] then [] else [rev cur])"
| "split_ws_aux cur (c # cs) =
     (if is_space c then (if cur = [] then split_ws_aux [] cs else rev cur # split_ws_aux [] cs)
      else split_ws_aux (c # cur) cs)"

definition split_ws :: "string \<Rightarrow> string list" where
  "split_ws s = split_ws_aux [] s"

text \<open>
  \<^verbatim>\<open>s.split(sep)\<close> for a non-empty separator: the pieces between the occurrences of
  \<open>sep\<close>, found from the left without overlap.  (Python raises on an empty separator; the
  scanner only splits on \<^verbatim>\<open>' - '\<close> and \<^verbatim>\<open>'<'\<close>.)
\<close>

function split_on_aux :: "string \<Rightarrow> string \<Rightarrow> string \<Rightarrow> string list" where
  "split_on_aux sep cur s =
     (if s = [] \<or> sep = [] then [rev cur]
      else if starts_with s sep then rev cur # split_on_aux sep [] (drop (length sep) s)
      else split_on_aux sep (hd s # cur) (tl s))"
  by pat_completeness auto
termination
  by (relation "measure (\<lambda>(sep, cur, s). length s)") auto

definition split_on :: "string \<Rightarrow> string \<Rightarrow> string list" where
  "split_on sep s = split_on_aux sep [] s"

section \<open>Company Matcher: \<^verbatim>\<open>fuzzy_company_match\<close>\<close>

text \<open>The separator class \<^verbatim>\<open>[\s\-\.]\<close> removed by the compacting substitutions.\<close>

definition is_sep :: "char \<Rightarrow> bool" where
  "is_sep c = (is_space c \<or> c = CHR ''-'' \<or> c = CHR ''.'')"

definition strip_separators :: "string \<Rightarrow> string" where
  "strip_separators s = filter (\<lambda>c. \<not> is_sep c) s"

definition company_suffixes :: "string list" where
  "company_suffixes =
     [''inc'', ''llc'', ''corp'', ''corporation'', ''ltd'', ''limited'', ''company'', ''co'',
      ''group'', ''services'', ''solutions'', ''technologies'', ''technology'', ''tech'',
      ''systems'', ''international'', ''global'']"

text \<open>
  The substitution \<^verbatim>\<open>re.sub(r'\s*(inc|llc|...|global)\.?$', '', name)\<close>.  The pattern is
  anchored at the end of the (already stripped) name, so it matches at most once, and the
  leftmost match is the first position whose whole remainder is optional whitespace, one of
  the suffix words and an optional period.  The pattern has no word boundary: the suffix
  may be the tail of a longer word.
\<close>

definition suffix_tail :: "string \<Rightarrow> bool" where
  "suffix_tail s =
     (let t = dropWhile is_space s
      in t \<in> set company_suffixes \<or> t \<in> set (map (\<lambda>a. a @ ''.'') company_suffixes))"

fun remove_suffix :: "string \<Rightarrow> string" where
  "remove_suffix [] = []"
| "remove_suffix (c # cs) = (if suffix_tail (c # cs) then [] else c # remove_suffix cs)"

text \<open>The inner function \<^verbatim>\<open>normalize_company\<close>; the 4-tuple it returns is a list here.\<close>

definition normalize_company :: "string \<Rightarrow> string list" where
  "normalize_company name0 =
     (let name = strip (lower name0);
          name_compact = strip_separators name;
          name_base = remove_suffix name;
          name_base_compact = strip_separators name_base
      in [name, name_compact, name_base, name_base_compact])"

text \<open>
  The body of the two inner loops for one pair of variants.  \<open>Inl\<close> is the early
  \<^verbatim>\<open>return csv_company, 1.0\<close>; \<open>Inr\<close> carries \<open>(best_match, best_score)\<close> on.  Scores
  are quotients of lengths, kept as exact rationals (the floating-point quotient compares
  the same way against 0.6 and against another score unless the lengths are astronomically
  large).
\<close>

type_synonym best = "string option \<times> rat"

definition variant_score :: "string \<Rightarrow> string \<Rightarrow> rat" where
  "variant_score a b = of_nat (min (length a) (length b)) / of_nat (max (length a) (length b))"

definition variant_step :: "string \<Rightarrow> string \<Rightarrow> string \<Rightarrow> best \<Rightarrow> (string \<times> rat) + best" where
  "variant_step csv_company email_variant csv_variant b =
     (if email_variant \<noteq> [] \<and> csv_variant \<noteq> [] then
        if email_variant = csv_variant then Inl (csv_company, 1)
        else if contains_str csv_variant email_variant \<or> contains_str email_variant csv_variant then
          (let score = variant_score email_variant csv_variant
           in if score > snd b \<and> score > 6 / 10 then Inr (Some csv_company, score) else Inr b)
        else Inr b
      else Inr b)"

fun variants_loop :: "string \<Rightarrow> (string \<times> string) list \<Rightarrow> best \<Rightarrow> (string \<times> rat) + best" where
  "variants_loop csv_company [] b = Inr b"
| "variants_loop csv_company ((ev, cv) # ps) b =
     (case variant_step csv_company ev cv b of
        Inl r \<Rightarrow> Inl r
      | Inr b' \<Rightarrow> variants_loop csv_company ps b')"

fun companies_loop :: "string list \<Rightarrow> string list \<Rightarrow> best \<Rightarrow> (string \<times> rat) + best" where
  "companies_loop email_normalized [] b = Inr b"
| "companies_loop email_normalized (csv_company # cs) b =
     (case variants_loop csv_company
             (List.product email_normalized (normalize_company csv_company)) b of
        Inl r \<Rightarrow> Inl r
      | Inr b' \<Rightarrow> companies_loop email_normalized cs b')"

text \<open>The acronym tier: \<^verbatim>\<open>re.sub(r'[^a-zA-Z0-9]', '', name.lower())\<close> on both names.\<close>

definition letters :: "string \<Rightarrow> string" where
  "letters s = filter is_alnum (lower s)"

fun acronym_loop :: "string \<Rightarrow> string list \<Rightarrow> string option" where
  "acronym_loop email_letters [] = None"
| "acronym_loop email_letters (csv_company # cs) =
     (if email_letters = letters csv_company \<and> length email_letters > 2 then Some csv_company
      else acronym_loop email_letters cs)"

text \<open>Python truthiness of a value that is \<^verbatim>\<open>None\<close> or a string.\<close>

definition truthy :: "string option \<Rightarrow> bool" where
  "truthy v = (case v of None \<Rightarrow> False | Some s \<Rightarrow> s \<noteq> [])"

definition fuzzy_company_match :: "string \<Rightarrow> string list \<Rightarrow> string option \<times> rat" where
  "fuzzy_company_match email_company csv_companies =
     (if email_company = [] then (None, 0)
      else
        case companies_loop (normalize_company email_company) csv_companies (None, 0) of
          Inl (c, s) \<Rightarrow> (Some c, s)
        | Inr (best_match, best_score) \<Rightarrow>
            (if \<not> truthy best_match then
               (case acronym_loop (letters email_company) csv_companies of
                  Some c \<Rightarrow> (Some c, 85 / 100)
                | None \<Rightarrow> (best_match, best_score))
             else (best_match, best_score)))"

section \<open>Classification Oracle boundary and Consistency Corrector: \<^verbatim>\<open>ai_analyze_job_email\<close>\<close>

text \<open>
  The JSON object the Oracle answers with.  Each field is typed as the data model types the
  Judgement; a field is \<open>None\<close> when its key is absent (for the nullable fields
  \<open>company_extracted\<close>, \<open>company_match\<close> and \<open>interview_date\<close>: absent or null, which
  the code does not tell apart).  The value under \<open>status\<close> may be null, an integer (an
  error code) or a string.  Values of any other JSON type are outside the model.
\<close>

datatype status_val = StatusNull | StatusCode int | StatusText string

record oracle_dict =
  raw_action :: "string option"
  raw_is_job_related :: "bool option"
  raw_status :: "status_val option"
  raw_company_extracted :: "string option"
  raw_company_match :: "string option"
  raw_confidence :: "rat option"
  raw_reasoning :: "string option"
  raw_interview_date :: "string option"

text \<open>
  What \<^verbatim>\<open>ai_completion\<close> hands back, by the shapes \<^verbatim>\<open>ai_analyze_job_email\<close> tells apart:
  \<^verbatim>\<open>None\<close>, an object with non-empty \<^verbatim>\<open>choices\<close> (its message content a string, a dict
  or something else; \<open>None\<close> when reading it raises), a dict, a string, anything else.  The
  first three constructors are the ways no answer is obtained at all: the AI switched off
  (\<^verbatim>\<open>USE_AI\<close>, \<^verbatim>\<open>AI_AVAILABLE\<close>), no client, and an exception (a timeout among them) caught
  by the function's own handler.
\<close>

datatype message_content = ContentStr string | ContentDict oracle_dict | ContentOther

datatype ai_response =
    AiUnavailable
  | AiNoClient
  | AiRaised
  | AiNone
  | AiCompletion "message_content option"
  | AiDict oracle_dict
  | AiStr string
  | AiOther

text \<open>The value of \<^verbatim>\<open>json.loads\<close>: a dict or some other JSON value.\<close>

datatype json_value = JsonDict oracle_dict | JsonOther

text \<open>The Judgement: the dict \<^verbatim>\<open>ai_analyze_job_email\<close> returns, all required fields filled.\<close>

record judgement =
  is_job_related :: bool
  company_extracted :: "string option"
  company_match :: "string option"
  status :: "string option"
  confidence :: rat
  reasoning :: string
  interview_date :: "string option"

text \<open>
  Library functions and the clock the scanner depends on are parameters of the model:
  \<^item> \<open>json_loads\<close> is \<^verbatim>\<open>json.loads\<close> (\<open>None\<close>: \<^verbatim>\<open>JSONDecodeError\<close>);
  \<^item> \<open>str_contains pat\<close> is the pandas test \<^verbatim>\<open>Series.str.contains(pat, case=False, na=False)\<close>
    on one cell, which compiles \<open>pat\<close> as a regular expression (\<open>None\<close>: it does not compile);
  \<^item> \<open>to_datetime\<close> is \<^verbatim>\<open>pd.to_datetime(..., errors='coerce')\<close> on one cell (\<open>None\<close>: \<^verbatim>\<open>NaT\<close>);
  \<^item> \<open>format_2f\<close> is the format \<^verbatim>\<open>:.2f\<close>;
  \<^item> \<open>now\<close> is \<^verbatim>\<open>datetime.now().strftime('%Y-%m-%d %H:%M')\<close>.
\<close>

record env =
  json_loads :: "string \<Rightarrow> json_value option"
  str_contains :: "string \<Rightarrow> (string \<Rightarrow> bool) option"
  to_datetime :: "string \<Rightarrow> int option"
  format_2f :: "rat \<Rightarrow> string"
  now :: string

text \<open>
  Lines 370--433: from the raw result to \<^verbatim>\<open>parsed_result\<close>, or \<open>None\<close> for each
  \<^verbatim>\<open>return None\<close>.  A parsed content that is not a dict ends in \<^verbatim>\<open>return None\<close> too
  (when falsy at the end of the function, when truthy through the \<^verbatim>\<open>AttributeError\<close> of
  \<^verbatim>\<open>.get\<close>, which the function's handler catches).
\<close>

definition is_error_response :: "oracle_dict \<Rightarrow> bool" where
  "is_error_response d = (raw_action d = Some ''error'' \<or> raw_status d = Some (StatusCode 418))"

definition checked_dict :: "oracle_dict \<Rightarrow> oracle_dict option" where
  "checked_dict d =
     (if is_error_response d then None
      else if raw_is_job_related d \<noteq> None then Some d
      else None)"

definition parse_result :: "(string \<Rightarrow> json_value option) \<Rightarrow> ai_response \<Rightarrow> oracle_dict option" where
  "parse_result loads result =
     (case result of
        AiUnavailable \<Rightarrow> None
      | AiNoClient \<Rightarrow> None
      | AiRaised \<Rightarrow> None
      | AiNone \<Rightarrow> None
      | AiCompletion None \<Rightarrow> None
      | AiCompletion (Some (ContentStr message_content)) \<Rightarrow>
          (case loads message_content of
             None \<Rightarrow> None
           | Some JsonOther \<Rightarrow> None
           | Some (JsonDict d) \<Rightarrow> Some d)
      | AiCompletion (Some (ContentDict d)) \<Rightarrow> Some d
      | AiCompletion (Some ContentOther) \<Rightarrow> None
      | AiDict d \<Rightarrow> checked_dict d
      | AiStr s \<Rightarrow>
          (case loads s of
             None \<Rightarrow> None
           | Some JsonOther \<Rightarrow> None
           | Some (JsonDict d) \<Rightarrow> checked_dict d)
      | AiOther \<Rightarrow> None)"

text \<open>
  Lines 435--468: validation and defaults.  \<open>None\<close> when the fallback marker
  \<^verbatim>\<open>'JSON parsing failed'\<close> is the reasoning, when \<open>is_job_related\<close> or \<open>status\<close> is
  missing, and when \<open>status\<close> is an integer.
\<close>

definition validate_result :: "oracle_dict \<Rightarrow> judgement option" where
  "validate_result parsed_result =
     (if raw_reasoning parsed_result = Some ''JSON parsing failed'' then None
      else
        case (raw_is_job_related parsed_result, raw_status parsed_result) of
          (Some jr, Some st) \<Rightarrow>
            (case st of
               StatusCode n \<Rightarrow> None
             | _ \<Rightarrow>
                 Some \<lparr> is_job_related = jr,
                        company_extracted =
                          (if raw_company_extracted parsed_result = Some ''None'' then None
                           else raw_company_extracted parsed_result),
                        company_match = raw_company_match parsed_result,
                        status = (case st of StatusText s \<Rightarrow> Some s | _ \<Rightarrow> None),
                        confidence =
                          (case raw_confidence parsed_result of None \<Rightarrow> 5 / 10 | Some c \<Rightarrow> c),
                        reasoning =
                          (case raw_reasoning parsed_result of
                             None \<Rightarrow> ''No reasoning provided'' | Some r \<Rightarrow> r),
                        interview_date = raw_interview_date parsed_result \<rparr>)
        | _ \<Rightarrow> None)"

text \<open>Lines 470--486: the company taken from the subject or the sender when the AI gave none.\<close>

definition extract_company :: "string \<Rightarrow> string \<Rightarrow> judgement \<Rightarrow> judgement" where
  "extract_company subject sender_name parsed_result =
     (if \<not> truthy (company_extracted parsed_result) then
        if contains_str subject '' - '' then
          parsed_result\<lparr>company_extracted := Some (strip (last (split_on '' - '' subject)))\<rparr>
        else if contains_str (lower sender_name) ''applytojob.com'' then
          if contains_str sender_name ''<'' then
            (let company = strip (hd (split_on ''<'' sender_name))
             in if company \<noteq> [] \<and> lower company \<notin> set [''recruiting'', ''noreply'', ''no-reply'']
                then parsed_result\<lparr>company_extracted := Some company\<rparr>
                else parsed_result)
          else parsed_result
        else parsed_result
      else parsed_result)"

text \<open>
  The patterns handed to \<^verbatim>\<open>re.search\<close>: nine literal phrases and
  \<^verbatim>\<open>'unfortunately.*unable'\<close>, where \<^verbatim>\<open>.\<close> matches any character but a newline.
\<close>

datatype pattern = Literal string | DotStar string string

fun dotstar_search :: "string \<Rightarrow> string \<Rightarrow> string \<Rightarrow> bool" where
  "dotstar_search a b [] = False"
| "dotstar_search a b (c # cs) =
     ((starts_with (c # cs) a
         \<and> contains_str (takeWhile (\<lambda>x. x \<noteq> CHR 0x0A) (drop (length a) (c # cs))) b)
      \<or> dotstar_search a b cs)"

fun re_search :: "pattern \<Rightarrow> string \<Rightarrow> bool" where
  "re_search (Literal p) s = contains_str s p"
| "re_search (DotStar a b) s = dotstar_search a b s"

definition rejection_phrases :: "pattern list" where
  "rejection_phrases =
     [Literal ''unable to employ'',
      Literal ''unable to sponsor'',
      Literal ''cannot sponsor'',
      Literal ''unable to transfer'',
      Literal ''pursuing other candidates'',
      Literal ''not moving forward'',
      Literal ''decided to move forward with other'',
      DotStar ''unfortunately'' ''unable'',
      Literal ''regret to inform'',
      Literal ''not selected'']"

text \<open>Lines 488--530: the Consistency Corrector.\<close>

definition is_rejection :: "string \<Rightarrow> string \<Rightarrow> bool" where
  "is_rejection reasoning_lower content_lower =
     list_ex (\<lambda>phrase. re_search phrase reasoning_lower \<or> re_search phrase content_lower)
       rejection_phrases"

definition fix_rejection :: "judgement \<Rightarrow> judgement" where
  "fix_rejection parsed_result =
     (let r1 = (if \<not> is_job_related parsed_result
                then parsed_result\<lparr>is_job_related := True\<rparr> else parsed_result);
          r2 = (if status r1 = Some ''Other'' then r1\<lparr>status := Some ''Rejected''\<rparr> else r1)
      in if confidence r2 < 7 / 10 then r2\<lparr>confidence := 8 / 10\<rparr> else r2)"

definition fix_thank_you :: "judgement \<Rightarrow> judgement" where
  "fix_thank_you parsed_result =
     (if \<not> is_job_related parsed_result
      then parsed_result\<lparr>is_job_related := True,
                          confidence := max (confidence parsed_result) (7 / 10)\<rparr>
      else parsed_result)"

definition correct_judgement :: "string \<Rightarrow> string \<Rightarrow> judgement \<Rightarrow> judgement" where
  "correct_judgement subject content parsed_result =
     (let reasoning_lower = lower (reasoning parsed_result);
          content_lower = lower content;
          r1 = (if is_rejection reasoning_lower content_lower
                then fix_rejection parsed_result else parsed_result)
      in if contains_str content_lower ''thank you for your interest''
            \<or> contains_str (lower subject) ''thank you for your interest''
         then fix_thank_you r1 else r1)"

definition ai_analyze_job_email ::
  "(string \<Rightarrow> json_value option) \<Rightarrow> string \<Rightarrow> string \<Rightarrow> string \<Rightarrow> ai_response \<Rightarrow> judgement option" where
  "ai_analyze_job_email loads subject content sender_name result =
     (case parse_result loads result of
        None \<Rightarrow> None
      | Some parsed_result \<Rightarrow>
          (case validate_result parsed_result of
             None \<Rightarrow> None
           | Some filled \<Rightarrow>
               Some (correct_judgement subject content
                       (extract_company subject sender_name filled))))"

section \<open>The tracking store\<close>

text \<open>
  One row of the applications table, with the columns this core reads and writes.  Cells of
  \<open>Title\<close>, \<open>Company\<close> and \<open>Status\<close> are strings (the scan fills missing values with the
  empty string); \<open>Location\<close> holds \<^verbatim>\<open>str(cell)\<close>; \<open>Notes\<close> and \<open>Interview_Date\<close> are
  \<open>None\<close> for a missing value.  The columns \<open>Company\<close>, \<open>Status\<close>, \<open>Date Applied\<close> and
  \<open>Interview Date\<close> always exist during a scan (the last two are created on loading when
  missing); the code asks whether \<open>Title\<close>, \<open>Location\<close> and \<open>Notes\<close> exist, so the table
  records that.  The row index of the DataFrame is the position in \<open>rows\<close>.
\<close>

record application =
  Job_ID :: string
  Title :: string
  Company :: string
  Location :: string
  Status :: string
  Date_Applied :: string
  Interview_Date :: "string option"
  Notes :: "string option"

record dataframe =
  rows :: "application list"
  has_Title :: bool
  has_Location :: bool
  has_Notes :: bool

text \<open>\<^verbatim>\<open>Series.unique()\<close>: the distinct values in order of first appearance.\<close>

definition unique :: "'a list \<Rightarrow> 'a list" where
  "unique xs = rev (remdups (rev xs))"

text \<open>The index of a boolean selection \<^verbatim>\<open>df[mask]\<close>.\<close>

definition select_index :: "(application \<Rightarrow> bool) \<Rightarrow> dataframe \<Rightarrow> nat list" where
  "select_index keep df = filter (\<lambda>i. keep (rows df ! i)) [0 ..< length (rows df)]"

section \<open>Status manager: \<^verbatim>\<open>update_application_status\<close>\<close>

definition APPLICATION_STATUSES :: "string list" where
  "APPLICATION_STATUSES =
     [''Applied'', ''Assessment'', ''Follow-up Required'', ''Interview Scheduled'',
      ''Interviewed'', ''Rejected'', ''Offered'', ''Accepted'', ''Declined'']"

definition quote :: string where
  "quote = [CHR 0x27]"

definition newline :: string where
  "newline = [CHR 0x0A]"

text \<open>
  The function reads the table, updates it and writes it back; here it maps the table to
  the new table and the returned flag.  \<open>timestamp\<close> is the formatted clock.  The test
  \<^verbatim>\<open>df['Job ID'] == job_id\<close> is modelled on string cells; where pandas reads the column
  as numbers, a \<open>job_id\<close> given as text matches no row and the function returns
  \<open>False\<close> with the table unchanged, as for an unknown id here.
\<close>

definition update_application_status ::
  "string \<Rightarrow> dataframe \<Rightarrow> string \<Rightarrow> string \<Rightarrow> string option \<Rightarrow> dataframe \<times> bool" where
  "update_application_status timestamp df job_id new_status notes =
     (if new_status \<notin> set APPLICATION_STATUSES then (df, False)
      else
        case select_index (\<lambda>r. Job_ID r = job_id) df of
          [] \<Rightarrow> (df, False)
        | job_idx # _ \<Rightarrow>
            (let r1 = (rows df ! job_idx)\<lparr>Status := new_status\<rparr>;
                 r2 = (if truthy notes \<and> has_Notes df then
                         (let new_note = ''['' @ timestamp @ ''] Status changed to '' @ quote
                                         @ new_status @ quote @ '': '' @ the notes
                          in r1\<lparr>Notes := Some (case Notes r1 of
                                                  None \<Rightarrow> new_note
                                                | Some current_notes \<Rightarrow>
                                                    current_notes @ newline @ new_note)\<rparr>)
                       else r1)
             in (df\<lparr>rows := (rows df)[job_idx := r2]\<rparr>, True)))"

section \<open>Reconciler: \<^verbatim>\<open>scan_for_status_updates\<close>\<close>

record email =
  sender_name :: string
  subject :: string
  content :: string
  response :: ai_response

text \<open>A message id of the mailbox: the fetch fails, or it yields an email.\<close>

datatype message = FetchFailed | Fetched email

text \<open>
  The per-account state of the scan: the table and the counters of the summary.  The
  progress counter \<^verbatim>\<open>processed\<close>, which only feeds the progress lines, is left out.
\<close>

record scan_state =
  applications_df :: dataframe
  job_related_count :: nat
  ai_successes :: nat
  ai_failures :: nat
  account_updates :: nat

text \<open>What the scan prints about one message.\<close>

datatype reason =
    NoCompanyMatch "string option"
  | UnclearStatus "string option"
  | LowConfidence rat

datatype outcome =
    FetchError
  | AiFailure
  | NotJobRelated
  | InconsistentReasoning
  | NoUpdate "reason list"
  | NoApplications
  | Processed nat
  | Raised

text \<open>
  Lines 687--709: when the AI gave no direct match but extracted a company, the company is
  looked up by its compacted name, then by \<open>fuzzy_company_match\<close>.
\<close>

definition resolve_company :: "dataframe \<Rightarrow> judgement \<Rightarrow> string option" where
  "resolve_company df ai_result =
     (let company_match = company_match ai_result;
          extracted_company = company_extracted ai_result
      in if \<not> truthy company_match \<and> truthy extracted_company then
           (let companies = unique (map Company (rows df));
                extracted_normalized = strip_separators (lower (the extracted_company));
                company_match1 =
                  (case List.find (\<lambda>csv_company.
                           extracted_normalized = strip_separators (lower csv_company)) companies of
                     Some csv_company \<Rightarrow> Some csv_company
                   | None \<Rightarrow> company_match)
            in if \<not> truthy company_match1 then
                 (case fuzzy_company_match (the extracted_company) companies of
                    (fuzzy_match, fuzzy_score) \<Rightarrow>
                      if truthy fuzzy_match \<and> fuzzy_score > 6 / 10 then fuzzy_match
                      else company_match1)
               else company_match1)
         else company_match)"

text \<open>
  Lines 713--745: all applications of the company, by the exact name, else ignoring case,
  else by the longest word of the name.  \<open>None\<close> is the exception pandas raises when that
  word does not compile as a regular expression.
\<close>

fun longest :: "string list \<Rightarrow> string \<Rightarrow> string" where
  "longest [] best = best"
| "longest (w # ws) best = longest ws (if length w > length best then w else best)"

definition remove_spaces :: "string \<Rightarrow> string" where
  "remove_spaces s = filter (\<lambda>c. c \<noteq> CHR '' '') s"

definition find_matching_apps :: "env \<Rightarrow> dataframe \<Rightarrow> string \<Rightarrow> nat list option" where
  "find_matching_apps env df matched_company =
     (let exact = select_index (\<lambda>r. Company r = matched_company) df
      in if exact \<noteq> [] then Some exact
         else
           (let ci = select_index (\<lambda>r. lower (Company r) = lower matched_company) df
            in if ci \<noteq> [] then Some ci
               else
                 (let company_words = split_ws (lower matched_company);
                      main_word = (case company_words of
                                     [] \<Rightarrow> lower matched_company
                                   | w # ws \<Rightarrow> longest ws w)
                  in case str_contains env main_word of
                       None \<Rightarrow> None
                     | Some matches \<Rightarrow>
                         (let partial = select_index (\<lambda>r. matches (Company r)) df;
                              found_companies = unique (map (\<lambda>i. Company (rows df ! i)) partial)
                          in case List.find (\<lambda>found_company.
                                    remove_spaces (lower found_company)
                                      = remove_spaces (lower matched_company)) found_companies of
                               Some found_company \<Rightarrow>
                                 Some (select_index (\<lambda>r. Company r = found_company) df)
                             | None \<Rightarrow> Some partial))))"

text \<open>
  Lines 751--810, the Record Selector.  One loop over the company's applications tests, for
  each, first the title and then the location, and stops at the first application that
  passes either test.
\<close>

definition title_mentioned :: "string \<Rightarrow> string \<Rightarrow> bool" where
  "title_mentioned job_title email_text =
     (job_title \<noteq> [] \<and> length job_title > 3
      \<and> (contains_str email_text job_title
         \<or> list_all (\<lambda>word. contains_str email_text word) (take 3 (split_ws job_title))))"

definition location_mentioned :: "string \<Rightarrow> string \<Rightarrow> bool" where
  "location_mentioned job_location email_text =
     (job_location \<noteq> [] \<and> length job_location > 3 \<and> contains_str email_text job_location)"

fun specific_match :: "dataframe \<Rightarrow> string \<Rightarrow> nat list \<Rightarrow> nat option" where
  "specific_match df email_text [] = None"
| "specific_match df email_text (idx # idxs) =
     (let job_title = (if has_Title df then lower (Title (rows df ! idx)) else []);
          job_location = (if has_Location df then lower (Location (rows df ! idx)) else [])
      in if title_mentioned job_title email_text then Some idx
         else if location_mentioned job_location email_text then Some idx
         else specific_match df email_text idxs)"

definition bulk_rejection_phrases :: "string list" where
  "bulk_rejection_phrases =
     [''all positions'', ''any of our openings'', ''all current openings'',
      ''future opportunities'', ''all applications'']"

definition is_bulk_rejection :: "string \<Rightarrow> bool" where
  "is_bulk_rejection email_text =
     list_ex (\<lambda>phrase. contains_str email_text phrase) bulk_rejection_phrases"

text \<open>
  \<^verbatim>\<open>dates.idxmax()\<close>: the index of the first occurrence of the greatest date, missing
  dates skipped; \<open>None\<close> when every date is missing (\<^verbatim>\<open>dates.isna().all()\<close>).
\<close>

fun idxmax_from :: "(nat \<times> int) option \<Rightarrow> (nat \<times> int option) list \<Rightarrow> (nat \<times> int) option" where
  "idxmax_from best [] = best"
| "idxmax_from best ((i, None) # ds) = idxmax_from best ds"
| "idxmax_from None ((i, Some d) # ds) = idxmax_from (Some (i, d)) ds"
| "idxmax_from (Some (j, m)) ((i, Some d) # ds) =
     idxmax_from (if d > m then Some (i, d) else Some (j, m)) ds"

definition idxmax :: "(nat \<times> int option) list \<Rightarrow> nat option" where
  "idxmax dates = map_option fst (idxmax_from None dates)"

text \<open>
  \<open>None\<close> is the \<^verbatim>\<open>KeyError\<close> of line 804, which reads the \<open>Title\<close> cell of the most
  recent application without asking whether the column exists.
\<close>

definition select_records :: "env \<Rightarrow> dataframe \<Rightarrow> string \<Rightarrow> nat list \<Rightarrow> nat list option" where
  "select_records env df email_text matching_apps =
     (if length matching_apps > 1 then
        case specific_match df email_text matching_apps of
          Some specific_match_idx \<Rightarrow> Some [specific_match_idx]
        | None \<Rightarrow>
            if is_bulk_rejection email_text then Some matching_apps
            else
              (case idxmax (map (\<lambda>i. (i, to_datetime env (Date_Applied (rows df ! i))))
                              matching_apps) of
                 Some most_recent_idx \<Rightarrow>
                   if has_Title df then Some [most_recent_idx] else None
               | None \<Rightarrow> Some (take 1 matching_apps))
      else Some matching_apps)"

text \<open>Lines 813--857: the update of one selected application, and the audit note.\<close>

function show_nat :: "nat \<Rightarrow> string" where
  "show_nat n = (if n < 10 then [digit_chars ! n] else show_nat (n div 10) @ [digit_chars ! (n mod 10)])"
  by pat_completeness auto
termination
  by (relation "measure id") auto

text \<open>
  The three characters between the two statuses in the note of line 841 (U+201A, U+00DC,
  U+00ED, as the source file holds them), in UTF-8.
\<close>

definition arrow :: string where
  "arrow = [CHR 0xE2, CHR 0x80, CHR 0x9A, CHR 0xC3, CHR 0x9C, CHR 0xC3, CHR 0xAD]"

definition dquote :: string where
  "dquote = [CHR 0x22]"

definition make_note :: "env \<Rightarrow> string \<Rightarrow> string \<Rightarrow> string \<Rightarrow> rat \<Rightarrow> string \<Rightarrow> string" where
  "make_note env current_status new_status subj status_confidence multi_app_note =
     (let email_snippet = take 50 subj @ (if length subj > 50 then ''...'' else [])
      in ''['' @ now env @ ''] AI updated: '' @ quote @ current_status @ quote @ '' '' @ arrow
         @ '' '' @ quote @ new_status @ quote @ '' | Email: '' @ dquote @ email_snippet @ dquote
         @ '' | Confidence: '' @ format_2f env status_confidence @ multi_app_note)"

definition apply_update ::
  "env \<Rightarrow> string \<Rightarrow> judgement \<Rightarrow> string \<Rightarrow> string \<Rightarrow> nat \<Rightarrow> nat \<Rightarrow> dataframe \<times> nat
   \<Rightarrow> dataframe \<times> nat" where
  "apply_update env subj ai_result matched_company new_status n_selected app_idx acc =
     (case acc of
        (df, updates) \<Rightarrow>
          (let current_status = Status (rows df ! app_idx)
           in if new_status \<noteq> current_status then
                (let rs1 = (rows df)[app_idx := (rows df ! app_idx)\<lparr>Status := new_status\<rparr>];
                     rs2 = (if has_Notes df then rs1 else map (\<lambda>r. r\<lparr>Notes := Some []\<rparr>) rs1);
                     total = length (filter (\<lambda>r. Company r = matched_company) rs2);
                     multi_app_note =
                       (if n_selected < total
                        then '' | Note: '' @ show_nat total
                             @ '' total applications to this company, updated only this one''
                        else []);
                     new_note = make_note env current_status new_status subj
                                  (confidence ai_result) multi_app_note;
                     r3 = (rs2 ! app_idx)\<lparr>Notes :=
                            Some (case Notes (rs2 ! app_idx) of
                                    None \<Rightarrow> new_note
                                  | Some current_notes \<Rightarrow>
                                      if current_notes = [] then new_note
                                      else current_notes @ newline @ new_note)\<rparr>;
                     r4 = (if truthy (interview_date ai_result)
                           then r3\<lparr>Interview_Date := interview_date ai_result\<rparr> else r3)
                 in (df\<lparr>rows := rs2[app_idx := r4], has_Notes := True\<rparr>, updates + 1))
              else (df, updates)))"

text \<open>Lines 870--878: why no update was made.\<close>

definition no_update_reasons :: "string option \<Rightarrow> string option \<Rightarrow> string option \<Rightarrow> rat \<Rightarrow> reason list" where
  "no_update_reasons matched_company extracted_company new_status status_confidence =
     (if \<not> truthy matched_company then [NoCompanyMatch extracted_company] else [])
     @ (if \<not> truthy new_status \<or> new_status = Some ''Other'' then [UnclearStatus new_status] else [])
     @ (if status_confidence < 6 / 10 then [LowConfidence status_confidence] else [])"

text \<open>
  The body of the loop over the message ids (lines 623--903) for one message.  An exception
  in the body (\<open>Raised\<close>) is caught by the per-message handler and the loop goes on; no
  exception can arise once the first cell has been written.  The diagnostics printed when
  the company has no application change nothing and are part of \<open>NoApplications\<close>.
\<close>

definition process_message :: "env \<Rightarrow> scan_state \<Rightarrow> message \<Rightarrow> scan_state \<times> outcome" where
  "process_message env st msg =
     (case msg of
        FetchFailed \<Rightarrow> (st, FetchError)
      | Fetched m \<Rightarrow>
          (case ai_analyze_job_email (json_loads env) (subject m) (content m) (sender_name m)
                  (response m) of
             None \<Rightarrow> (st\<lparr>ai_failures := ai_failures st + 1\<rparr>, AiFailure)
           | Some ai_result \<Rightarrow>
               (let st1 = st\<lparr>ai_successes := ai_successes st + 1\<rparr>
                in if \<not> is_job_related ai_result then (st1, NotJobRelated)
                   else if contains_str (lower (reasoning ai_result))
                             ''unrelated to any job application''
                   then (st1, InconsistentReasoning)
                   else
                     (let st2 = st1\<lparr>job_related_count := job_related_count st1 + 1\<rparr>;
                          df = applications_df st;
                          extracted_company = company_extracted ai_result;
                          new_status = status ai_result;
                          status_confidence = confidence ai_result;
                          matched_company = resolve_company df ai_result
                      in if truthy matched_company \<and> truthy new_status
                            \<and> new_status \<noteq> Some ''Other'' \<and> status_confidence \<ge> 6 / 10
                         then
                           (case find_matching_apps env df (the matched_company) of
                              None \<Rightarrow> (st2, Raised)
                            | Some matching_apps \<Rightarrow>
                                if matching_apps \<noteq> [] then
                                  (case select_records env df
                                          (lower (subject m @ '' '' @ content m)) matching_apps of
                                     None \<Rightarrow> (st2, Raised)
                                   | Some selected \<Rightarrow>
                                       (case fold (apply_update env (subject m) ai_result
                                                     (the matched_company) (the new_status)
                                                     (length selected))
                                               selected (df, 0) of
                                          (df', n) \<Rightarrow>
                                            (st2\<lparr>applications_df := df',
                                                 account_updates := account_updates st2 + n\<rparr>,
                                             Processed n)))
                                else (st2, NoApplications))
                         else
                           (st2, NoUpdate (no_update_reasons matched_company extracted_company
                                             new_status status_confidence))))))"

text \<open>
  The scan of one account: the message ids are processed in reverse order, the counters
  start at zero, the table is the one loaded before the first account.
\<close>

fun scan_messages :: "env \<Rightarrow> scan_state \<Rightarrow> message list \<Rightarrow> scan_state" where
  "scan_messages env st [] = st"
| "scan_messages env st (msg # msgs) = scan_messages env (fst (process_message env st msg)) msgs"


section \<open>Notions used to state the properties of the Company Matcher\<close>

text \<open>
  The pairs of non-empty variants of a candidate name and a known company, whether two of
  them are equal, the scores of the pairs in which one variant contains the other, and the
  test of the acronym tier.  \<open>improve\<close> is the update of \<open>(best_match, best_score)\<close> by
  one score.
\<close>

definition variant_pairs :: "string \<Rightarrow> string \<Rightarrow> (string \<times> string) list" where
  "variant_pairs e c =
     filter (\<lambda>(ev, cv). ev \<noteq> [] \<and> cv \<noteq> [])
       (List.product (normalize_company e) (normalize_company c))"

definition exact_hit :: "string \<Rightarrow> string \<Rightarrow> bool" where
  "exact_hit e c = (\<exists>(ev, cv) \<in> set (variant_pairs e c). ev = cv)"

definition sub_scores :: "string \<Rightarrow> string \<Rightarrow> rat list" where
  "sub_scores e c =
     map (\<lambda>(ev, cv). variant_score ev cv)
       (filter (\<lambda>(ev, cv). contains_str cv ev \<or> contains_str ev cv) (variant_pairs e c))"

definition acronym_hit :: "string \<Rightarrow> string \<Rightarrow> bool" where
  "acronym_hit e c = (letters e = letters c \<and> length (letters e) > 2)"

definition improve :: "string \<Rightarrow> rat \<Rightarrow> best \<Rightarrow> best" where
  "improve c s b = (if s > snd b \<and> s > 6 / 10 then (Some c, s) else b)"

definition pair_scores :: "(string \<times> string) list \<Rightarrow> rat list" where
  "pair_scores ps =
     map (\<lambda>(ev, cv). variant_score ev cv)
       (filter (\<lambda>(ev, cv). contains_str cv ev \<or> contains_str ev cv)
          (filter (\<lambda>(ev, cv). ev \<noteq> [] \<and> cv \<noteq> []) ps))"

definition all_scored :: "string \<Rightarrow> string list \<Rightarrow> (string \<times> rat) list" where
  "all_scored e cs = concat (map (\<lambda>c. map (\<lambda>s. (c, s)) (sub_scores e c)) cs)"

section \<open>Notions used to state the properties of the Oracle boundary and the Corrector\<close>

text \<open>The nine strong rejection phrases the specification lists.\<close>

definition strong_rejection_phrases :: "string list" where
  "strong_rejection_phrases =
     [''unable to employ'', ''unable to sponsor'', ''cannot sponsor'', ''unable to transfer'',
      ''pursuing other candidates'', ''not moving forward'',
      ''decided to move forward with other'', ''regret to inform'', ''not selected'']"

text \<open>
  What the scanner itself recognises as a failed analysis, branch by branch of
  \<^verbatim>\<open>ai_analyze_job_email\<close>: no result at all, a result of an unexpected type, a content that
  cannot be read, text that is not JSON or not a JSON object, an object without
  \<open>is_job_related\<close> or without \<open>status\<close>, the marker \<^verbatim>\<open>'JSON parsing failed'\<close>, an
  integer \<open>status\<close>, and, for a bare dict or string result only, \<open>action\<close> equal to
  \<^verbatim>\<open>'error'\<close>.
\<close>

definition malformed_dict :: "oracle_dict \<Rightarrow> bool" where
  "malformed_dict d =
     (raw_is_job_related d = None \<or> raw_status d = None
      \<or> raw_reasoning d = Some ''JSON parsing failed'')"

definition error_code_dict :: "oracle_dict \<Rightarrow> bool" where
  "error_code_dict d = (case raw_status d of Some (StatusCode n) \<Rightarrow> True | _ \<Rightarrow> False)"

definition failed_text :: "(string \<Rightarrow> json_value option) \<Rightarrow> string \<Rightarrow> (oracle_dict \<Rightarrow> bool) \<Rightarrow> bool" where
  "failed_text loads s bad =
     (case loads s of None \<Rightarrow> True | Some JsonOther \<Rightarrow> True | Some (JsonDict d) \<Rightarrow> bad d)"

fun recognised_failure :: "(string \<Rightarrow> json_value option) \<Rightarrow> ai_response \<Rightarrow> bool" where
  "recognised_failure loads AiUnavailable = True"
| "recognised_failure loads AiNoClient = True"
| "recognised_failure loads AiRaised = True"
| "recognised_failure loads AiNone = True"
| "recognised_failure loads AiOther = True"
| "recognised_failure loads (AiCompletion None) = True"
| "recognised_failure loads (AiCompletion (Some ContentOther)) = True"
| "recognised_failure loads (AiCompletion (Some (ContentDict d))) =
     (malformed_dict d \<or> error_code_dict d)"
| "recognised_failure loads (AiCompletion (Some (ContentStr s))) =
     failed_text loads s (\<lambda>d. malformed_dict d \<or> error_code_dict d)"
| "recognised_failure loads (AiDict d) =
     (malformed_dict d \<or> error_code_dict d \<or> raw_action d = Some ''error'')"
| "recognised_failure loads (AiStr s) =
     failed_text loads s (\<lambda>d. malformed_dict d \<or> error_code_dict d \<or> raw_action d = Some ''error'')"

text \<open>
  The ways the Oracle fails, as the specification lists them, whatever the wrapping of the
  answer: no response (the AI is switched off, no client, the call raises, the result is
  \<^verbatim>\<open>None\<close>, or the answer is one of the fallback dicts that \<^verbatim>\<open>ai_completion\<close> puts in
  place of a response that never came, told by their reasoning); a malformed or unparseable
  response (an unexpected type, a content that cannot be read, text that is not a JSON
  object, an object without \<open>is_job_related\<close> or without \<open>status\<close>); an error-shaped
  response (an object whose \<open>action\<close> is \<^verbatim>\<open>'error'\<close> or whose \<open>status\<close> is an integer
  code).
\<close>

definition fallback_markers :: "string list" where
  "fallback_markers =
     [''JSON parsing failed'', ''Request timed out'', ''All AI services unavailable or timed out'']"

definition fabricated_fallback :: "oracle_dict \<Rightarrow> bool" where
  "fabricated_fallback d =
     (case raw_reasoning d of None \<Rightarrow> False | Some r \<Rightarrow> r \<in> set fallback_markers)"

definition failed_dict :: "oracle_dict \<Rightarrow> bool" where
  "failed_dict d =
     (raw_is_job_related d = None \<or> raw_status d = None \<or> error_code_dict d
      \<or> raw_action d = Some ''error'' \<or> fabricated_fallback d)"

fun oracle_fails :: "(string \<Rightarrow> json_value option) \<Rightarrow> ai_response \<Rightarrow> bool" where
  "oracle_fails loads AiUnavailable = True"
| "oracle_fails loads AiNoClient = True"
| "oracle_fails loads AiRaised = True"
| "oracle_fails loads AiNone = True"
| "oracle_fails loads AiOther = True"
| "oracle_fails loads (AiCompletion None) = True"
| "oracle_fails loads (AiCompletion (Some ContentOther)) = True"
| "oracle_fails loads (AiCompletion (Some (ContentDict d))) = failed_dict d"
| "oracle_fails loads (AiCompletion (Some (ContentStr s))) = failed_text loads s failed_dict"
| "oracle_fails loads (AiDict d) = failed_dict d"
| "oracle_fails loads (AiStr s) = failed_text loads s failed_dict"

section \<open>Example inputs\<close>

text \<open>
  A concrete environment (no text parses as JSON, the pandas pattern is a plain word, two
  known dates, a two-decimal rendering), a table with two applications to Acme and one to
  Globex, and messages whose Oracle answer is a dict naming Acme.  \<open>example_format_2f\<close>
  stands for \<^verbatim>\<open>:.2f\<close> on the confidences used here.
\<close>

definition example_format_2f :: "rat \<Rightarrow> string" where
  "example_format_2f c =
     (let n = nat \<lfloor>c * 100 + 1 / 2\<rfloor>
      in show_nat (n div 100) @ ''.'' @ [digit_chars ! ((n div 10) mod 10), digit_chars ! (n mod 10)])"

definition example_env :: env where
  "example_env =
     \<lparr> json_loads = (\<lambda>s. None),
       str_contains = (\<lambda>pat. Some (\<lambda>cell. contains_str (lower cell) (lower pat))),
       to_datetime = map_of [(''2024-01-05'', 5), (''2024-02-10'', 41)],
       format_2f = example_format_2f,
       now = ''2024-03-01 10:00'' \<rparr>"

definition example_app :: "string \<Rightarrow> string \<Rightarrow> string \<Rightarrow> string \<Rightarrow> string \<Rightarrow> string \<Rightarrow> application" where
  "example_app jid t c l st d =
     \<lparr> Job_ID = jid, Title = t, Company = c, Location = l, Status = st, Date_Applied = d,
       Interview_Date = None, Notes = None \<rparr>"

definition example_store :: dataframe where
  "example_store =
     \<lparr> rows = [example_app ''101'' ''Data Engineer'' ''Acme'' ''Boston'' ''Applied'' ''2024-01-05'',
               example_app ''102'' ''Cook'' ''Globex'' ''Denver'' ''Applied'' ''2024-01-05'',
               example_app ''103'' ''Software Engineer'' ''Acme'' ''Austin'' ''Applied'' ''2024-02-10''],
       has_Title = True, has_Location = False, has_Notes = True \<rparr>"

definition single_store :: dataframe where
  "single_store =
     \<lparr> rows = [example_app ''101'' ''Data Engineer'' ''Acme'' ''Boston'' ''Applied'' ''2024-01-05''],
       has_Title = True, has_Location = False, has_Notes = True \<rparr>"

definition example_dict :: "bool \<Rightarrow> string \<Rightarrow> rat \<Rightarrow> oracle_dict" where
  "example_dict related st c =
     \<lparr> raw_action = None, raw_is_job_related = Some related, raw_status = Some (StatusText st),
       raw_company_extracted = Some ''Acme'', raw_company_match = Some ''Acme'',
       raw_confidence = Some c, raw_reasoning = Some ''ok'', raw_interview_date = None \<rparr>"

definition example_mail :: "string \<Rightarrow> string \<Rightarrow> string \<Rightarrow> rat \<Rightarrow> message" where
  "example_mail subj body st c =
     Fetched \<lparr> sender_name = ''Acme HR'', subject = subj, content = body,
               response = AiDict (example_dict True st c) \<rparr>"

definition error_dict :: oracle_dict where
  "error_dict = (example_dict True ''Rejected'' (9 / 10))\<lparr>raw_action := Some ''error''\<rparr>"

definition bare_error_mail :: email where
  "bare_error_mail =
     \<lparr> sender_name = ''Acme HR'', subject = ''update'', content = ''hello'',
       response = AiDict error_dict \<rparr>"

definition wrapped_error_mail :: email where
  "wrapped_error_mail =
     \<lparr> sender_name = ''Acme HR'', subject = ''update'', content = ''hello'',
       response = AiCompletion (Some (ContentDict error_dict)) \<rparr>"

text \<open>
  The answer \<^verbatim>\<open>ai_completion\<close> returns in free-AI mode when every model has failed or
  timed out: a completion whose content is the JSON text of the fallback dict of
  \<^verbatim>\<open>free_ai_completion\<close>; \<open>fallback_env\<close> parses that text as \<^verbatim>\<open>json.loads\<close> does.
\<close>

definition timeout_fallback_text :: string where
  "timeout_fallback_text =
     ''{'' @ dquote @ ''is_job_related'' @ dquote @ '': false, ''
     @ dquote @ ''company_match'' @ dquote @ '': null, ''
     @ dquote @ ''status'' @ dquote @ '': '' @ dquote @ ''Other'' @ dquote @ '', ''
     @ dquote @ ''confidence'' @ dquote @ '': 0.0, ''
     @ dquote @ ''reasoning'' @ dquote @ '': '' @ dquote
     @ ''All AI services unavailable or timed out'' @ dquote @ ''}''"

definition timeout_fallback_dict :: oracle_dict where
  "timeout_fallback_dict =
     \<lparr> raw_action = None, raw_is_job_related = Some False, raw_status = Some (StatusText ''Other''),
       raw_company_extracted = None, raw_company_match = None, raw_confidence = Some 0,
       raw_reasoning = Some ''All AI services unavailable or timed out'',
       raw_interview_date = None \<rparr>"

definition fallback_loads :: "string \<Rightarrow> json_value option" where
  "fallback_loads s = (if s = timeout_fallback_text then Some (JsonDict timeout_fallback_dict) else None)"

definition fallback_env :: env where
  "fallback_env = example_env\<lparr>json_loads := fallback_loads\<rparr>"

definition timeout_mail :: email where
  "timeout_mail =
     \<lparr> sender_name = ''Acme HR'', subject = ''your application - acme'',
       content = ''we regret to inform you'',
       response = AiCompletion (Some (ContentStr timeout_fallback_text)) \<rparr>"

definition start_state :: "dataframe \<Rightarrow> scan_state" where
  "start_state df =
     \<lparr> applications_df = df, job_related_count = 0, ai_successes = 0, ai_failures = 0,
       account_updates = 0 \<rparr>"

definition example_judgement :: judgement where
  "example_judgement =
     \<lparr> is_job_related = False, company_extracted = None, company_match = None,
       status = Some ''Other'', confidence = 3 / 10, reasoning = ''ok'', interview_date = None \<rparr>"

definition located_store :: dataframe where
  "located_store = example_store\<lparr>has_Location := True\<rparr>"



section \<open>Notions used to state the properties of the Record Selector\<close>

text \<open>
  An application is mentioned by an email when its title passes the title test or its
  location passes the location test (an absent column counts as the empty string);
  \<open>applied_on\<close> is its parsed application date.
\<close>

definition mentioned :: "dataframe \<Rightarrow> string \<Rightarrow> nat \<Rightarrow> bool" where
  "mentioned df email_text idx =
     (title_mentioned (if has_Title df then lower (Title (rows df ! idx)) else []) email_text
      \<or> location_mentioned (if has_Location df then lower (Location (rows df ! idx)) else [])
           email_text)"

definition applied_on :: "env \<Rightarrow> dataframe \<Rightarrow> nat \<Rightarrow> int option" where
  "applied_on env df idx = to_datetime env (Date_Applied (rows df ! idx))"

text \<open>
  In a list of indexed dates, \<open>older ds m\<close>: every present date is before \<open>m\<close>;
  \<open>not_newer ds m\<close>: no present date is after \<open>m\<close>.
\<close>

definition older :: "(nat \<times> int option) list \<Rightarrow> int \<Rightarrow> bool" where
  "older ds m = (\<forall>x\<in>set ds. \<forall>d'. snd x = Some d' \<longrightarrow> d' < m)"

definition not_newer :: "(nat \<times> int option) list \<Rightarrow> int \<Rightarrow> bool" where
  "not_newer ds m = (\<forall>x\<in>set ds. \<forall>d'. snd x = Some d' \<longrightarrow> d' \<le> m)"

section \<open>Notions used to state the idempotence of the scan\<close>

text \<open>
  \<open>plan env df msg\<close> is what a message asks of the table: the records it selects and the
  status it carries, when the message passes every test before the apply step (fetched,
  analysed, job-related, consistent, gate open, applications found, selection made);
  \<open>None\<close> otherwise.  \<open>same_keys\<close> relates two tables that agree on the columns the
  selection reads (\<open>Title\<close>, \<open>Company\<close>, \<open>Location\<close>, \<open>Date Applied\<close>) and on the presence
  of \<open>Title\<close> and \<open>Location\<close>.  A mailbox is consistent on a table when no two of its
  messages select a common record with different statuses.
\<close>

definition plan :: "env \<Rightarrow> dataframe \<Rightarrow> message \<Rightarrow> (nat list \<times> string) option" where
  "plan env df msg =
     (case msg of
        FetchFailed \<Rightarrow> None
      | Fetched m \<Rightarrow>
          (case ai_analyze_job_email (json_loads env) (subject m) (content m) (sender_name m)
                  (response m) of
             None \<Rightarrow> None
           | Some j \<Rightarrow>
               if is_job_related j
                  \<and> \<not> contains_str (lower (reasoning j)) ''unrelated to any job application''
                  \<and> truthy (resolve_company df j) \<and> truthy (status j)
                  \<and> status j \<noteq> Some ''Other'' \<and> confidence j \<ge> 6 / 10
               then
                 (case find_matching_apps env df (the (resolve_company df j)) of
                    None \<Rightarrow> None
                  | Some matching \<Rightarrow>
                      if matching = [] then None
                      else
                        (case select_records env df (lower (subject m @ '' '' @ content m))
                                matching of
                           None \<Rightarrow> None
                         | Some selected \<Rightarrow> Some (selected, the (status j))))
               else None))"



definition consistent_mailbox :: "env \<Rightarrow> dataframe \<Rightarrow> message list \<Rightarrow> bool" where
  "consistent_mailbox env df mailbox =
     (\<forall>m\<in>set mailbox. \<forall>m'\<in>set mailbox.
        case (plan env df m, plan env df m') of
          (Some (sel, s), Some (sel', s')) \<Rightarrow> set sel \<inter> set sel' \<noteq> {} \<longrightarrow> s = s'
        | _ \<Rightarrow> True)"

section \<open>Properties of the Company Matcher\<close>

lemma variants_loop_exact:
  "\<exists>(ev, cv) \<in> set ps. ev \<noteq> [] \<and> cv \<noteq> [] \<and> ev = cv \<Longrightarrow> variants_loop c ps b = Inl (c, 1)"
proof (induction ps arbitrary: b)
  case Nil
  then show ?case by simp
next
  case (Cons p ps)
  obtain ev cv where p: "p = (ev, cv)" by (cases p)
  show ?case
  proof (cases "ev \<noteq> [] \<and> cv \<noteq> [] \<and> ev = cv")
    case True
    then show ?thesis by (simp add: p variant_step_def)
  next
    case False
    with Cons.prems p have "\<exists>(ev, cv) \<in> set ps. ev \<noteq> [] \<and> cv \<noteq> [] \<and> ev = cv" by auto
    from Cons.IH[OF this] False show ?thesis
      by (auto simp: p variant_step_def Let_def)
  qed
qed

lemma variants_loop_no_exact:
  "\<not> (\<exists>(ev, cv) \<in> set ps. ev \<noteq> [] \<and> cv \<noteq> [] \<and> ev = cv) \<Longrightarrow>
   variants_loop c ps b = Inr (fold (improve c) (pair_scores ps) b)"
proof (induction ps arbitrary: b)
  case Nil
  then show ?case by (simp add: pair_scores_def)
next
  case (Cons p ps)
  obtain ev cv where p: "p = (ev, cv)" by (cases p)
  from Cons.prems have rest: "\<not> (\<exists>(ev, cv) \<in> set ps. ev \<noteq> [] \<and> cv \<noteq> [] \<and> ev = cv)"
    and here: "\<not> (ev \<noteq> [] \<and> cv \<noteq> [] \<and> ev = cv)" by (auto simp: p)
  show ?case
    using here Cons.IH[OF rest]
    by (auto simp: p variant_step_def Let_def pair_scores_def improve_def)
qed

lemma pair_scores_variant_pairs:
  "pair_scores (List.product (normalize_company e) (normalize_company c)) = sub_scores e c"
  by (simp add: pair_scores_def sub_scores_def variant_pairs_def)

lemma exact_hit_iff:
  "exact_hit e c \<longleftrightarrow>
   (\<exists>(ev, cv) \<in> set (List.product (normalize_company e) (normalize_company c)).
      ev \<noteq> [] \<and> cv \<noteq> [] \<and> ev = cv)"
  by (auto simp: exact_hit_def variant_pairs_def)

lemma companies_loop_first_exact:
  "List.find (exact_hit e) cs = Some c \<Longrightarrow>
   companies_loop (normalize_company e) cs b = Inl (c, 1)"
proof (induction cs arbitrary: b)
  case Nil
  then show ?case by simp
next
  case (Cons x cs)
  show ?case
  proof (cases "exact_hit e x")
    case True
    with Cons.prems have "x = c" by simp
    with True show ?thesis
      using variants_loop_exact[of "List.product (normalize_company e) (normalize_company c)" c b]
      by (simp add: exact_hit_iff)
  next
    case False
    with Cons.prems have f: "List.find (exact_hit e) cs = Some c" by simp
    from False have "variants_loop x (List.product (normalize_company e) (normalize_company x)) b
        = Inr (fold (improve x) (sub_scores e x) b)"
      using variants_loop_no_exact[of "List.product (normalize_company e) (normalize_company x)" x b]
      by (simp add: exact_hit_iff pair_scores_variant_pairs)
    then show ?thesis using Cons.IH[OF f] by simp
  qed
qed

lemma fold_improve_pairs:
  "fold (improve c) ss b = fold (\<lambda>(c, s). improve c s) (map (\<lambda>s. (c, s)) ss) b"
  by (induction ss arbitrary: b) auto

lemma companies_loop_no_exact:
  "\<forall>c \<in> set cs. \<not> exact_hit e c \<Longrightarrow>
   companies_loop (normalize_company e) cs b = Inr (fold (\<lambda>(c, s). improve c s) (all_scored e cs) b)"
proof (induction cs arbitrary: b)
  case Nil
  then show ?case by (simp add: all_scored_def)
next
  case (Cons x cs)
  then have nx: "\<not> exact_hit e x" and rest: "\<forall>c \<in> set cs. \<not> exact_hit e c" by auto
  from nx have "variants_loop x (List.product (normalize_company e) (normalize_company x)) b
        = Inr (fold (improve x) (sub_scores e x) b)"
    using variants_loop_no_exact[of "List.product (normalize_company e) (normalize_company x)" x b]
    by (simp add: exact_hit_iff pair_scores_variant_pairs)
  then show ?case using Cons.IH[OF rest]
    by (simp add: all_scored_def fold_improve_pairs)
qed

lemma fold_improve_none:
  "(\<And>c s. (c, s) \<in> set xs \<Longrightarrow> s \<le> 6 / 10) \<Longrightarrow> fold (\<lambda>(c, s). improve c s) xs b = b"
proof (induction xs arbitrary: b)
  case Nil
  then show ?case by simp
next
  case (Cons x xs)
  obtain c s where x: "x = (c, s)" by (cases x)
  from Cons.prems[of c s] have "s \<le> 6 / 10" by (simp add: x)
  then have "improve c s b = b" unfolding improve_def by (simp only: not_less[symmetric] simp_thms if_False)
  moreover have "fold (\<lambda>(c, s). improve c s) xs b = b"
  proof (rule Cons.IH)
    fix c s assume "(c, s) \<in> set xs"
    then show "s \<le> 6 / 10" using Cons.prems[of c s] by simp
  qed
  ultimately show ?case by (simp add: x)
qed

lemma all_scored_le:
  "\<forall>c \<in> set cs. \<forall>s \<in> set (sub_scores e c). s \<le> t \<Longrightarrow> (c, s) \<in> set (all_scored e cs) \<Longrightarrow> s \<le> t"
  by (auto simp: all_scored_def)

lemma fold_improve_mono: "snd b \<le> snd (fold (\<lambda>(c, s). improve c s) xs b)"
proof (induction xs arbitrary: b)
  case Nil
  then show ?case by simp
next
  case (Cons x xs)
  obtain c s where x: "x = (c, s)" by (cases x)
  have "snd b \<le> snd (improve c s b)" by (simp add: improve_def)
  also have "\<dots> \<le> snd (fold (\<lambda>(c, s). improve c s) xs (improve c s b))" by (rule Cons.IH)
  finally show ?case by (simp add: x)
qed

lemma fold_improve_upper:
  "(c, s) \<in> set xs \<Longrightarrow> s > 6 / 10 \<Longrightarrow> s \<le> snd (fold (\<lambda>(c, s). improve c s) xs b)"
proof (induction xs arbitrary: b)
  case Nil
  then show ?case by simp
next
  case (Cons x xs)
  obtain c' s' where x: "x = (c', s')" by (cases x)
  show ?case
  proof (cases "(c, s) = x")
    case True
    then have "s \<le> snd (improve c' s' b)" using Cons.prems(2) by (auto simp: x improve_def)
    also have "\<dots> \<le> snd (fold (\<lambda>(c, s). improve c s) xs (improve c' s' b))"
      by (rule fold_improve_mono)
    finally show ?thesis by (simp add: x)
  next
    case False
    with Cons.prems have "(c, s) \<in> set xs" by auto
    from Cons.IH[OF this Cons.prems(2)] show ?thesis by (simp add: x)
  qed
qed

lemma fold_improve_result:
  "fold (\<lambda>(c, s). improve c s) xs b = b \<or>
   (\<exists>c s. fold (\<lambda>(c, s). improve c s) xs b = (Some c, s) \<and> (c, s) \<in> set xs \<and> s > 6 / 10)"
proof (induction xs arbitrary: b)
  case Nil
  then show ?case by simp
next
  case (Cons x xs)
  obtain c' s' where x: "x = (c', s')" by (cases x)
  from Cons.IH[of "improve c' s' b"] show ?case
    by (auto simp: x improve_def split: if_splits)
qed

lemma normalize_company_nonempty:
  "v \<in> set (normalize_company c) \<Longrightarrow> v \<noteq> [] \<Longrightarrow> c \<noteq> []"
  by (auto simp: normalize_company_def Let_def strip_def lower_def strip_separators_def)

lemma all_scored_company:
  "(c, s) \<in> set (all_scored e cs) \<Longrightarrow> c \<in> set cs \<and> s \<in> set (sub_scores e c) \<and> c \<noteq> []"
  by (auto simp: all_scored_def sub_scores_def variant_pairs_def
           dest: normalize_company_nonempty)

lemma acronym_loop_find:
  "acronym_loop (letters e) cs = List.find (acronym_hit e) cs"
  by (induction cs) (auto simp: acronym_hit_def)

text \<open>
  Claim C6, as amended.  For a non-empty candidate name: when some non-empty variant of the
  candidate equals a variant of a known company, \<open>fuzzy_company_match\<close> returns the first
  known company (in the order of the list) with such a pair, with score exactly 1.
\<close>

theorem exact_match_first:
  assumes "email_company \<noteq> []"
    and "List.find (exact_hit email_company) csv_companies = Some c"
  shows "fuzzy_company_match email_company csv_companies = (Some c, 1)"
  using assms companies_loop_first_exact[OF assms(2), of "(None, 0)"]
  by (simp add: fuzzy_company_match_def)

text \<open>
  Claim C6, the example of the specification: \<open>match("Acme Inc.", {"Acme", "Other Co"})\<close>
  is \<open>("Acme", 1.0)\<close>.
\<close>

theorem exact_match_first_witness:
  "''Acme Inc.'' \<noteq> [] \<and> List.find (exact_hit ''Acme Inc.'') [''Acme'', ''Other Co''] = Some ''Acme''
   \<and> fuzzy_company_match ''Acme Inc.'' [''Acme'', ''Other Co''] = (Some ''Acme'', 1)"
proof -
  have h1: "''Acme Inc.'' \<noteq> []" by simp
  have h2: "List.find (exact_hit ''Acme Inc.'') [''Acme'', ''Other Co''] = Some ''Acme''"
    by code_simp
  from exact_match_first[OF h1 h2] h1 h2 show ?thesis by simp
qed

text \<open>
  Claim C6 as stated fails when the equal variants are empty: the suffix-stripped variants
  of \<open>Global\<close> and of \<open>Tech\<close> are both the empty string, and no match is returned
  (the loop skips empty variants).
\<close>

theorem exact_match_empty_variant_counterexample:
  "normalize_company ''Global'' ! 2 = normalize_company ''Tech'' ! 2
   \<and> fuzzy_company_match ''Global'' [''Tech''] = (None, 0)"
  by code_simp

text \<open>
  Claim C7, as amended.  For a non-empty candidate name: when no non-empty variant pair is
  equal and no substring pair scores above 0.6, and the candidate and some known company
  agree after all non-alphanumeric characters are removed (case-insensitively) with more
  than 2 characters left, \<open>fuzzy_company_match\<close> returns the first such known company
  with score 0.85.
\<close>

theorem acronym_tier:
  assumes "email_company \<noteq> []"
    and "\<forall>c \<in> set csv_companies. \<not> exact_hit email_company c"
    and "\<forall>c \<in> set csv_companies. \<forall>s \<in> set (sub_scores email_company c). s \<le> 6 / 10"
    and "List.find (acronym_hit email_company) csv_companies = Some c"
  shows "fuzzy_company_match email_company csv_companies = (Some c, 85 / 100)"
proof -
  from fold_improve_none[OF all_scored_le[OF assms(3)], of _ _ "(None, 0)"]
    companies_loop_no_exact[OF assms(2), of "(None, 0)"]
  have "companies_loop (normalize_company email_company) csv_companies (None, 0) = Inr (None, 0)"
    by simp
  then show ?thesis
    using assms(1,4) by (simp add: fuzzy_company_match_def truthy_def acronym_loop_find)
qed

text \<open>Claim C7, an input that reaches the acronym tier: \<open>match("AT&T", {"ATT"})\<close>.\<close>

theorem acronym_tier_witness:
  "fuzzy_company_match ''AT&T'' [''ATT''] = (Some ''ATT'', 85 / 100)"
proof -
  have h1: "''AT&T'' \<noteq> []" by simp
  have h2: "\<forall>c \<in> set [''ATT'']. \<not> exact_hit ''AT&T'' c" by code_simp
  have h3: "\<forall>c \<in> set [''ATT'']. \<forall>s \<in> set (sub_scores ''AT&T'' c). s \<le> 6 / 10" by code_simp
  have h4: "List.find (acronym_hit ''AT&T'') [''ATT''] = Some ''ATT''" by code_simp
  from acronym_tier[OF h1 h2 h3 h4] show ?thesis .
qed

text \<open>
  Claim C7, the example of the specification: \<open>match("M3USA", {"M3 USA Corporation"})\<close> is
  settled by the exact tier (the candidate and the compacted, suffix-stripped company name are
  both \<open>m3usa\<close>) and the score is 1, not 0.85.
\<close>

theorem acronym_example_counterexample:
  "fuzzy_company_match ''M3USA'' [''M3 USA Corporation''] = (Some ''M3 USA Corporation'', 1)
   \<and> (1 :: rat) \<noteq> 85 / 100"
  by code_simp

text \<open>
  Claim C8.  For a non-empty candidate name with no exactly equal pair of non-empty
  variants: when some pair in which one variant contains the other scores above 0.6 (the
  score being the shorter length over the longer), \<open>fuzzy_company_match\<close> returns a known
  company together with one of its scores, that score is above 0.6 and no score of any
  known company is higher; when no pair scores above 0.6 and the acronym tier finds
  nothing, the result is \<open>(None, 0)\<close>.
\<close>

theorem substring_tier:
  assumes "email_company \<noteq> []"
    and "\<forall>c \<in> set csv_companies. \<not> exact_hit email_company c"
  shows "((\<exists>c \<in> set csv_companies. \<exists>s \<in> set (sub_scores email_company c). s > 6 / 10) \<longrightarrow>
           (\<exists>c s. fuzzy_company_match email_company csv_companies = (Some c, s)
                 \<and> c \<in> set csv_companies \<and> s \<in> set (sub_scores email_company c) \<and> s > 6 / 10
                 \<and> (\<forall>c' \<in> set csv_companies. \<forall>s' \<in> set (sub_scores email_company c'). s' \<le> s)))
       \<and> ((\<forall>c \<in> set csv_companies. \<forall>s \<in> set (sub_scores email_company c). s \<le> 6 / 10)
            \<and> (\<forall>c \<in> set csv_companies. \<not> acronym_hit email_company c) \<longrightarrow>
           fuzzy_company_match email_company csv_companies = (None, 0))"
proof (intro conjI impI)
  let ?xs = "all_scored email_company csv_companies"
  let ?r = "fold (\<lambda>(c, s). improve c s) ?xs (None, 0)"
  have loop: "companies_loop (normalize_company email_company) csv_companies (None, 0) = Inr ?r"
    by (rule companies_loop_no_exact[OF assms(2)])
  assume "\<exists>c \<in> set csv_companies. \<exists>s \<in> set (sub_scores email_company c). s > 6 / 10"
  then obtain c0 s0 where c0: "c0 \<in> set csv_companies" "s0 \<in> set (sub_scores email_company c0)"
    and s0: "s0 > 6 / 10" by blast
  from c0 have mem: "(c0, s0) \<in> set ?xs" by (auto simp: all_scored_def)
  from fold_improve_upper[OF mem s0, of "(None, 0)"] s0 have big: "snd ?r > 6 / 10" by simp
  from fold_improve_result[of ?xs "(None, 0)"] big
  obtain c s where r: "?r = (Some c, s)" and cs: "(c, s) \<in> set ?xs" and s: "s > 6 / 10"
    by auto
  from all_scored_company[OF cs] have c: "c \<in> set csv_companies"
    "s \<in> set (sub_scores email_company c)" "c \<noteq> []" by auto
  have upper: "\<forall>c' \<in> set csv_companies. \<forall>s' \<in> set (sub_scores email_company c'). s' \<le> s"
  proof (intro ballI)
    fix c' s' assume c': "c' \<in> set csv_companies" "s' \<in> set (sub_scores email_company c')"
    then have mem': "(c', s') \<in> set ?xs" by (auto simp: all_scored_def)
    show "s' \<le> s"
    proof (cases "s' > 6 / 10")
      case True
      from fold_improve_upper[OF mem' True, of "(None, 0)"] r show ?thesis by simp
    next
      case False
      with s show ?thesis by simp
    qed
  qed
  have "fuzzy_company_match email_company csv_companies = (Some c, s)"
    using assms(1) loop r c(3) by (simp add: fuzzy_company_match_def truthy_def)
  with c s upper
  show "\<exists>c s. fuzzy_company_match email_company csv_companies = (Some c, s)
          \<and> c \<in> set csv_companies \<and> s \<in> set (sub_scores email_company c) \<and> s > 6 / 10
          \<and> (\<forall>c' \<in> set csv_companies. \<forall>s' \<in> set (sub_scores email_company c'). s' \<le> s)"
    by blast
next
  assume a: "(\<forall>c \<in> set csv_companies. \<forall>s \<in> set (sub_scores email_company c). s \<le> 6 / 10)
            \<and> (\<forall>c \<in> set csv_companies. \<not> acronym_hit email_company c)"
  from a have a1: "\<forall>c \<in> set csv_companies. \<forall>s \<in> set (sub_scores email_company c). s \<le> 6 / 10"
    by (rule conjunct1)
  from fold_improve_none[OF all_scored_le[OF a1], of _ _ "(None, 0)"]
    companies_loop_no_exact[OF assms(2), of "(None, 0)"]
  have loop: "companies_loop (normalize_company email_company) csv_companies (None, 0) = Inr (None, 0)"
    by simp
  from a have "List.find (acronym_hit email_company) csv_companies = None"
    by (simp add: find_None_iff)
  with loop assms(1) show "fuzzy_company_match email_company csv_companies = (None, 0)"
    by (simp add: fuzzy_company_match_def truthy_def acronym_loop_find)
qed

text \<open>
  Claim C8, the example of the specification,
  \<open>match("Totally Unrelated Co", {"Acme", "Globex"}) = (None, 0.0)\<close>, and a substring match.
\<close>

theorem substring_tier_witness:
  "fuzzy_company_match ''Totally Unrelated Co'' [''Acme'', ''Globex''] = (None, 0)
   \<and> fuzzy_company_match ''Acme Robotics'' [''Acme'', ''Acme Robotic'']
       = (Some ''Acme Robotic'', 12 / 13)"
proof -
  have h1: "''Totally Unrelated Co'' \<noteq> []" by simp
  have h2: "\<forall>c \<in> set [''Acme'', ''Globex'']. \<not> exact_hit ''Totally Unrelated Co'' c"
    by code_simp
  have h3: "(\<forall>c \<in> set [''Acme'', ''Globex''].
               \<forall>s \<in> set (sub_scores ''Totally Unrelated Co'' c). s \<le> 6 / 10)
            \<and> (\<forall>c \<in> set [''Acme'', ''Globex'']. \<not> acronym_hit ''Totally Unrelated Co'' c)"
    by code_simp
  have g1: "''Acme Robotics'' \<noteq> []" by simp
  have g2: "\<forall>c \<in> set [''Acme'', ''Acme Robotic'']. \<not> exact_hit ''Acme Robotics'' c"
    by code_simp
  have g3: "\<exists>c \<in> set [''Acme'', ''Acme Robotic''].
              \<exists>s \<in> set (sub_scores ''Acme Robotics'' c). s > 6 / 10"
    by code_simp
  have g4: "sub_scores ''Acme Robotics'' ''Acme''
              = [4 / 13, 4 / 13, 4 / 13, 4 / 13, 1 / 3, 1 / 3, 1 / 3, 1 / 3,
                 4 / 13, 4 / 13, 4 / 13, 4 / 13, 1 / 3, 1 / 3, 1 / 3, 1 / 3]
            \<and> sub_scores ''Acme Robotics'' ''Acme Robotic''
              = [12 / 13, 12 / 13, 11 / 12, 11 / 12, 12 / 13, 12 / 13, 11 / 12, 11 / 12]"
    by code_simp
  from substring_tier[OF h1 h2] h3
  have a: "fuzzy_company_match ''Totally Unrelated Co'' [''Acme'', ''Globex''] = (None, 0)"
    by blast
  from substring_tier[OF g1 g2] g3
  obtain c s where r: "fuzzy_company_match ''Acme Robotics'' [''Acme'', ''Acme Robotic''] = (Some c, s)"
    "c \<in> set [''Acme'', ''Acme Robotic'']" "s \<in> set (sub_scores ''Acme Robotics'' c)"
    "\<forall>c' \<in> set [''Acme'', ''Acme Robotic'']. \<forall>s' \<in> set (sub_scores ''Acme Robotics'' c'). s' \<le> s"
    by blast
  from r(4) g4 have "(12 / 13 :: rat) \<le> s" by simp
  with r(2,3) g4 have "c = ''Acme Robotic'' \<and> s = 12 / 13" by auto
  with a r(1) show ?thesis by simp
qed

section \<open>Oracle failures\<close>

lemma validate_result_None:
  "malformed_dict d \<or> error_code_dict d \<Longrightarrow> validate_result d = None"
  by (auto simp: validate_result_def malformed_dict_def error_code_dict_def
           split: option.splits status_val.splits)

lemma checked_dict_cases:
  "checked_dict d = None \<or> checked_dict d = Some d"
  by (simp add: checked_dict_def)

lemma checked_dict_error:
  "raw_action d = Some ''error'' \<Longrightarrow> checked_dict d = None"
  by (simp add: checked_dict_def is_error_response_def)

lemma recognised_failure_analyze:
  assumes "recognised_failure loads r"
  shows "ai_analyze_job_email loads subj cont sender r = None"
proof -
  have "parse_result loads r = None \<or>
        (\<exists>d. parse_result loads r = Some d \<and> (malformed_dict d \<or> error_code_dict d))"
    using assms
  proof (induction loads r rule: recognised_failure.induct)
    case (9 loads s)
    then show ?case
      by (auto simp: parse_result_def failed_text_def split: option.splits json_value.splits)
  next
    case (10 loads d)
    then show ?case
      using checked_dict_cases[of d] checked_dict_error[of d]
      by (auto simp: parse_result_def)
  next
    case (11 loads s)
    then show ?case
      using checked_dict_cases checked_dict_error
      by (fastforce simp: parse_result_def failed_text_def split: option.splits json_value.splits)
  qed (auto simp: parse_result_def)
  then show ?thesis
    by (auto simp: ai_analyze_job_email_def validate_result_None)
qed

text \<open>
  For a failure the scanner recognises, the scan changes nothing but the failure counter,
  which grows by one, and goes on with the next message.
\<close>

lemma recognised_failure_no_update:
  assumes "recognised_failure (json_loads env) (response m)"
  shows "process_message env st (Fetched m) = (st\<lparr>ai_failures := ai_failures st + 1\<rparr>, AiFailure)
         \<and> scan_messages env st (Fetched m # msgs)
             = scan_messages env (st\<lparr>ai_failures := ai_failures st + 1\<rparr>) msgs"
  using recognised_failure_analyze[OF assms, of "subject m" "content m" "sender_name m"]
  by (simp add: process_message_def)

text \<open>Every failure the scanner recognises is a failure of the Oracle; not conversely.\<close>

lemma malformed_failed_dict: "malformed_dict d \<or> error_code_dict d \<Longrightarrow> failed_dict d"
  by (auto simp: malformed_dict_def failed_dict_def fabricated_fallback_def fallback_markers_def)

lemma recognised_failure_fails: "recognised_failure loads r \<Longrightarrow> oracle_fails loads r"
proof (induction loads r rule: recognised_failure.induct)
  case (8 loads d)
  then show ?case by (simp add: malformed_failed_dict)
next
  case (9 loads s)
  then show ?case
    by (auto simp: failed_text_def malformed_failed_dict split: option.splits json_value.splits)
next
  case (10 loads d)
  then show ?case using malformed_failed_dict[of d] by (auto simp: failed_dict_def)
next
  case (11 loads s)
  show ?case
  proof (cases "loads s")
    case None
    then show ?thesis by (simp add: failed_text_def)
  next
    case (Some v)
    show ?thesis
    proof (cases v)
      case JsonOther
      with Some show ?thesis by (simp add: failed_text_def)
    next
      case (JsonDict d)
      with Some "11.prems"
      have "malformed_dict d \<or> error_code_dict d \<or> raw_action d = Some ''error''"
        by (simp add: failed_text_def)
      then have "failed_dict d"
        using malformed_failed_dict[of d] by (auto simp: failed_dict_def)
      with Some JsonDict show ?thesis by (simp add: failed_text_def)
    qed
  qed
qed simp_all

text \<open>
  Claim C2 fails on the code.  Two failures of the Oracle are not recognised.  (1) In
  free-AI mode every model times out and the answer is the fallback dict with the
  reasoning \<open>All AI services unavailable or timed out\<close>; the email says
  \<open>we regret to inform you\<close> and its subject ends in \<open>- acme\<close>.  The scan takes the
  fallback for a Judgement, the Corrector turns it into \<open>Rejected\<close> at confidence 0.8, and
  the record of Acme is updated; an AI success is counted and no failure.  (2) An
  error-shaped answer (\<open>action = error\<close>) wrapped in a completion updates the record too,
  while the same dict as a bare result is counted as a failure and changes nothing.
\<close>

theorem unrecognised_failure_updates_record:
  "oracle_fails (json_loads fallback_env) (response timeout_mail)
   \<and> map Status (rows (applications_df (fst (process_message fallback_env
         (start_state single_store) (Fetched timeout_mail))))) = [''Rejected'']
   \<and> snd (process_message fallback_env (start_state single_store) (Fetched timeout_mail))
       = Processed 1
   \<and> account_updates (fst (process_message fallback_env (start_state single_store)
         (Fetched timeout_mail))) = 1
   \<and> ai_failures (fst (process_message fallback_env (start_state single_store)
         (Fetched timeout_mail))) = 0
   \<and> ai_successes (fst (process_message fallback_env (start_state single_store)
         (Fetched timeout_mail))) = 1
   \<and> oracle_fails (json_loads example_env) (response wrapped_error_mail)
   \<and> map Status (rows (applications_df (fst (process_message example_env
         (start_state single_store) (Fetched wrapped_error_mail))))) = [''Rejected'']
   \<and> ai_failures (fst (process_message example_env (start_state single_store)
         (Fetched wrapped_error_mail))) = 0
   \<and> map Status (rows (applications_df (fst (process_message example_env
         (start_state single_store) (Fetched bare_error_mail))))) = [''Applied'']
   \<and> snd (process_message example_env (start_state single_store) (Fetched bare_error_mail))
       = AiFailure
   \<and> ai_failures (fst (process_message example_env (start_state single_store)
         (Fetched bare_error_mail))) = 1"
  by code_simp

section \<open>The update gate\<close>








section \<open>The Consistency Corrector\<close>

lemma literal_is_rejection:
  assumes "phrase \<in> set strong_rejection_phrases"
    and "contains_str c phrase \<or> contains_str r phrase"
  shows "is_rejection r c"
proof -
  from assms(1) have "Literal phrase \<in> set rejection_phrases"
    by (auto simp: strong_rejection_phrases_def rejection_phrases_def)
  with assms(2) show ?thesis
    unfolding is_rejection_def list_ex_iff by (intro bexI[of _ "Literal phrase"]) auto
qed

text \<open>
  Claim C4, as amended.  When the lowercased email body or the lowercased reasoning of the
  Oracle contains one of the nine strong rejection phrases, the corrected Judgement is
  job-related, its status is \<open>Rejected\<close> if the Oracle said \<open>Other\<close> (and as the Oracle
  said otherwise), and its confidence is 0.8 if it was below 0.7 (and unchanged otherwise).
\<close>

theorem rejection_phrase_forces:
  assumes "phrase \<in> set strong_rejection_phrases"
    and "contains_str (lower body) phrase \<or> contains_str (lower (reasoning j)) phrase"
  shows "is_job_related (correct_judgement subj body j)
         \<and> status (correct_judgement subj body j)
             = (if status j = Some ''Other'' then Some ''Rejected'' else status j)
         \<and> confidence (correct_judgement subj body j)
             = (if confidence j < 7 / 10 then 8 / 10 else confidence j)"
proof -
  have "is_rejection (lower (reasoning j)) (lower body)"
    using literal_is_rejection[OF assms] .
  then show ?thesis
    by (simp add: correct_judgement_def fix_rejection_def fix_thank_you_def Let_def)
qed

text \<open>
  Claim C4, the example of the specification: the Judgement
  \<open>{is_job_related: false, status: "Other", confidence: 0.3}\<close> and a body containing
  \<open>we are unable to sponsor work visas at this time\<close>.
\<close>

theorem rejection_phrase_forces_witness:
  "''unable to sponsor'' \<in> set strong_rejection_phrases
   \<and> contains_str (lower ''we are unable to sponsor work visas at this time'') ''unable to sponsor''
   \<and> is_job_related
        (correct_judgement ''update'' ''we are unable to sponsor work visas at this time''
           example_judgement)
   \<and> status
        (correct_judgement ''update'' ''we are unable to sponsor work visas at this time''
           example_judgement) = Some ''Rejected''
   \<and> confidence
        (correct_judgement ''update'' ''we are unable to sponsor work visas at this time''
           example_judgement) = 8 / 10"
proof -
  have h1: "''unable to sponsor'' \<in> set strong_rejection_phrases" by code_simp
  have h2: "contains_str (lower ''we are unable to sponsor work visas at this time'')
              ''unable to sponsor''" by code_simp
  have s: "status example_judgement = Some ''Other''" "confidence example_judgement = 3 / 10"
    by (simp_all add: example_judgement_def)
  from rejection_phrase_forces[OF h1 disjI1[OF h2], where j = example_judgement and subj = "''update''"] h1 h2
  show ?thesis by (simp add: s)
qed

text \<open>
  Claim C4 as stated fails for a phrase that occurs in the subject only: the rejection
  rules read the reasoning and the body, not the subject, and the Judgement is returned as
  the Oracle gave it.
\<close>

theorem subject_phrase_counterexample:
  "contains_str ''we regret to inform you'' ''regret to inform''
   \<and> ai_analyze_job_email (json_loads example_env) ''we regret to inform you'' ''hello'' ''Acme HR''
       (AiDict (example_dict False ''Other'' (3 / 10)))
     = Some \<lparr> is_job_related = False, company_extracted = Some ''Acme'',
              company_match = Some ''Acme'', status = Some ''Other'', confidence = 3 / 10,
              reasoning = ''ok'', interview_date = None \<rparr>"
  by code_simp

section \<open>Status values and the apply step\<close>

lemma list_all_update:
  "list_all P xs \<Longrightarrow> P x \<Longrightarrow> list_all P (xs[i := x])"
  unfolding list_all_iff using set_update_subset_insert[of xs i x] by auto

lemma direct_update_keeps_statuses_listed:
  assumes "list_all (\<lambda>r. Status r \<in> set APPLICATION_STATUSES) (rows df)"
  shows "list_all (\<lambda>r. Status r \<in> set APPLICATION_STATUSES)
           (rows (fst (update_application_status timestamp df job_id new_status notes)))"
proof (cases "new_status \<in> set APPLICATION_STATUSES")
  case False
  with assms show ?thesis by (simp add: update_application_status_def)
next
  case True
  show ?thesis
  proof (cases "select_index (\<lambda>r. Job_ID r = job_id) df")
    case Nil
    with assms show ?thesis by (simp add: update_application_status_def)
  next
    case (Cons job_idx rest)
    show ?thesis
      unfolding update_application_status_def Let_def
      using True Cons assms by (simp add: list_all_update)
  qed
qed

text \<open>
  Claim C9 fails for the Reconciler.  On a table whose statuses are all among the nine
  listed values, a message whose Oracle answer carries the status \<open>Under Review\<close> (with a
  company match and confidence 0.9) leaves the record with the status \<open>Under Review\<close>,
  which is not listed; the direct status update refuses the same value.
\<close>

theorem reconciler_writes_unlisted_status:
  "map Status (rows single_store) = [''Applied'']
   \<and> ''Applied'' \<in> set APPLICATION_STATUSES
   \<and> ''Under Review'' \<notin> set APPLICATION_STATUSES
   \<and> map Status (rows (applications_df (fst (process_message example_env (start_state single_store)
        (example_mail ''update'' ''hello'' ''Under Review'' (9 / 10))))))
     = [''Under Review'']
   \<and> update_application_status ''2024-03-01 10:00'' single_store ''101'' ''Under Review'' None
     = (single_store, False)"
  by code_simp

lemma apply_update_keeps_equal_rows:
  assumes "apply_update env subj j c new_status n app_idx (df, u) = (df', u')"
    and "Status (rows df ! i) = new_status"
    and "i < length (rows df)"
  shows "Status (rows df' ! i) = new_status
         \<and> Interview_Date (rows df' ! i) = Interview_Date (rows df ! i)
         \<and> (has_Notes df \<longrightarrow> Notes (rows df' ! i) = Notes (rows df ! i))
         \<and> length (rows df') = length (rows df) \<and> (has_Notes df \<longrightarrow> has_Notes df')"
proof (cases "app_idx = i")
  case True
  with assms show ?thesis by (simp add: apply_update_def)
next
  case False
  with assms show ?thesis
    by (auto simp: apply_update_def Let_def split: if_splits)
qed

lemma apply_loop_keeps_equal_rows:
  assumes "fold (apply_update env subj j c new_status n) selected (df, u) = (df', u')"
    and "Status (rows df ! i) = new_status"
    and "i < length (rows df)"
  shows "Status (rows df' ! i) = new_status
         \<and> Interview_Date (rows df' ! i) = Interview_Date (rows df ! i)
         \<and> (has_Notes df \<longrightarrow> Notes (rows df' ! i) = Notes (rows df ! i))
         \<and> length (rows df') = length (rows df) \<and> (has_Notes df \<longrightarrow> has_Notes df')"
  using assms
proof (induction selected arbitrary: df u)
  case Nil
  then show ?case by simp
next
  case (Cons a selected)
  obtain df1 u1 where s: "apply_update env subj j c new_status n a (df, u) = (df1, u1)"
    by (cases "apply_update env subj j c new_status n a (df, u)")
  from apply_update_keeps_equal_rows[OF s Cons.prems(2,3)]
  have k: "Status (rows df1 ! i) = new_status"
    "Interview_Date (rows df1 ! i) = Interview_Date (rows df ! i)"
    "has_Notes df \<longrightarrow> Notes (rows df1 ! i) = Notes (rows df ! i)"
    "length (rows df1) = length (rows df)" "has_Notes df \<longrightarrow> has_Notes df1" by auto
  from Cons.prems(1) s have f: "fold (apply_update env subj j c new_status n) selected (df1, u1) = (df', u')"
    by simp
  from Cons.IH[OF f k(1)] Cons.prems(3) k show ?case by auto
qed

text \<open>
  Claim C10.  The update of a selected record whose status already equals the new status
  returns the table and the update counter as they were: no status write, no note, no
  interview date; so an update that changes anything is a status-changing one.  Through the
  whole loop over the selected records, a record that already has the new status keeps its
  status, its interview date and (in a table that has the \<open>Notes\<close> column) its notes.
\<close>

theorem equal_status_noop:
  "(Status (rows df ! app_idx) = new_status \<longrightarrow>
      apply_update env subj j c new_status n app_idx (df, updates) = (df, updates))
   \<and> (apply_update env subj j c new_status n app_idx (df, updates) \<noteq> (df, updates) \<longrightarrow>
        Status (rows df ! app_idx) \<noteq> new_status)
   \<and> (\<forall>i df' u'. fold (apply_update env subj j c new_status n) selected (df, updates) = (df', u')
          \<and> i < length (rows df) \<and> Status (rows df ! i) = new_status \<longrightarrow>
        Status (rows df' ! i) = new_status
        \<and> Interview_Date (rows df' ! i) = Interview_Date (rows df ! i)
        \<and> (has_Notes df \<longrightarrow> Notes (rows df' ! i) = Notes (rows df ! i)))"
proof (intro conjI impI allI)
  assume "Status (rows df ! app_idx) = new_status"
  then show "apply_update env subj j c new_status n app_idx (df, updates) = (df, updates)"
    by (simp add: apply_update_def)
next
  assume "apply_update env subj j c new_status n app_idx (df, updates) \<noteq> (df, updates)"
  then show "Status (rows df ! app_idx) \<noteq> new_status"
    by (auto simp: apply_update_def)
next
  fix i df' u'
  assume a: "fold (apply_update env subj j c new_status n) selected (df, updates) = (df', u')
          \<and> i < length (rows df) \<and> Status (rows df ! i) = new_status"
  then have r: "Status (rows df' ! i) = new_status
         \<and> Interview_Date (rows df' ! i) = Interview_Date (rows df ! i)
         \<and> (has_Notes df \<longrightarrow> Notes (rows df' ! i) = Notes (rows df ! i))
         \<and> length (rows df') = length (rows df) \<and> (has_Notes df \<longrightarrow> has_Notes df')"
    using apply_loop_keeps_equal_rows[of env subj j c new_status n selected df updates df' u' i]
    by blast
  from r show "Status (rows df' ! i) = new_status" by blast
  from r show "Interview_Date (rows df' ! i) = Interview_Date (rows df ! i)" by blast
  { assume "has_Notes df" with r show "Notes (rows df' ! i) = Notes (rows df ! i)" by blast }
qed

text \<open>
  Claim C10 on a record with status \<open>Applied\<close> and a Judgement that carries an interview
  date: the new status \<open>Applied\<close> changes nothing, the new status \<open>Rejected\<close> does.
\<close>

theorem equal_status_noop_witness:
  "Status (rows single_store ! 0) = ''Applied''
   \<and> apply_update example_env ''update''
        (example_judgement\<lparr>interview_date := Some ''2024-04-01''\<rparr>) ''Acme'' ''Applied'' 1 0
        (single_store, 0) = (single_store, 0)
   \<and> apply_update example_env ''update''
        (example_judgement\<lparr>interview_date := Some ''2024-04-01''\<rparr>) ''Acme'' ''Rejected'' 1 0
        (single_store, 0) \<noteq> (single_store, 0)
   \<and> Status (rows single_store ! 0) \<noteq> ''Rejected''"
proof -
  let ?j = "example_judgement\<lparr>interview_date := Some ''2024-04-01''\<rparr>"
  have h1: "Status (rows single_store ! 0) = ''Applied''" by code_simp
  have h2: "apply_update example_env ''update'' ?j ''Acme'' ''Rejected'' 1 0 (single_store, 0)
              \<noteq> (single_store, 0)" by code_simp
  from equal_status_noop[of single_store 0 "''Applied''" example_env "''update''" ?j "''Acme''" 1 0 "[]"]
    h1
  have a: "apply_update example_env ''update'' ?j ''Acme'' ''Applied'' 1 0 (single_store, 0)
             = (single_store, 0)" by blast
  from equal_status_noop[of single_store 0 "''Rejected''" example_env "''update''" ?j "''Acme''" 1 0 "[]"]
    h2
  have b: "Status (rows single_store ! 0) \<noteq> ''Rejected''" by blast
  from h1 a h2 b show ?thesis by blast
qed

section \<open>The Record Selector\<close>

lemma specific_match_find:
  "specific_match df email_text idxs = List.find (mentioned df email_text) idxs"
  by (induction idxs) (auto simp: mentioned_def Let_def)

lemma older_simps:
  "older [] m" "older ((i, None) # ds) m = older ds m"
  "older ((i, Some d) # ds) m = (d < m \<and> older ds m)"
  by (auto simp: older_def)

lemma not_newer_simps:
  "not_newer [] m" "not_newer ((i, None) # ds) m = not_newer ds m"
  "not_newer ((i, Some d) # ds) m = (d \<le> m \<and> not_newer ds m)"
  by (auto simp: not_newer_def)

lemma idxmax_from_Some:
  "idxmax_from (Some (j0, m0)) ds = Some (j, m) \<Longrightarrow>
     ((j, m) = (j0, m0) \<and> not_newer ds m0)
   \<or> (\<exists>pre post. ds = pre @ (j, Some m) # post \<and> m > m0 \<and> older pre m \<and> not_newer post m)"
proof (induction ds arbitrary: j0 m0)
  case Nil
  then show ?case by (simp add: not_newer_simps)
next
  case (Cons x ds)
  obtain i d where x: "x = (i, d)" by (cases x)
  show ?case
  proof (cases d)
    case None
    with Cons.prems x have "idxmax_from (Some (j0, m0)) ds = Some (j, m)" by simp
    from Cons.IH[OF this] show ?thesis
    proof
      assume "(j, m) = (j0, m0) \<and> not_newer ds m0"
      then show ?thesis by (simp add: x None not_newer_simps)
    next
      assume "\<exists>pre post. ds = pre @ (j, Some m) # post \<and> m > m0 \<and> older pre m \<and> not_newer post m"
      then obtain pre post where p: "ds = pre @ (j, Some m) # post" "m > m0" "older pre m"
        "not_newer post m" by blast
      then have "x # ds = (x # pre) @ (j, Some m) # post \<and> m > m0 \<and> older (x # pre) m
          \<and> not_newer post m" by (simp add: x None older_simps)
      then show ?thesis by blast
    qed
  next
    case (Some dv)
    show ?thesis
    proof (cases "dv > m0")
      case True
      with Cons.prems x Some have "idxmax_from (Some (i, dv)) ds = Some (j, m)" by simp
      from Cons.IH[OF this] show ?thesis
      proof
        assume a: "(j, m) = (i, dv) \<and> not_newer ds dv"
        then have "x # ds = [] @ (j, Some m) # ds \<and> m > m0 \<and> older [] m \<and> not_newer ds m"
          using True by (simp add: x Some older_simps)
        then show ?thesis by blast
      next
        assume "\<exists>pre post. ds = pre @ (j, Some m) # post \<and> m > dv \<and> older pre m \<and> not_newer post m"
        then obtain pre post where p: "ds = pre @ (j, Some m) # post" "m > dv" "older pre m"
          "not_newer post m" by blast
        with True have "x # ds = (x # pre) @ (j, Some m) # post \<and> m > m0 \<and> older (x # pre) m
          \<and> not_newer post m" by (simp add: x Some older_simps)
        then show ?thesis by blast
      qed
    next
      case False
      with Cons.prems x Some have "idxmax_from (Some (j0, m0)) ds = Some (j, m)" by simp
      from Cons.IH[OF this] show ?thesis
      proof
        assume "(j, m) = (j0, m0) \<and> not_newer ds m0"
        then show ?thesis using False by (simp add: x Some not_newer_simps)
      next
        assume "\<exists>pre post. ds = pre @ (j, Some m) # post \<and> m > m0 \<and> older pre m \<and> not_newer post m"
        then obtain pre post where p: "ds = pre @ (j, Some m) # post" "m > m0" "older pre m"
          "not_newer post m" by blast
        with False have "x # ds = (x # pre) @ (j, Some m) # post \<and> m > m0 \<and> older (x # pre) m
          \<and> not_newer post m" by (simp add: x Some older_simps)
        then show ?thesis by blast
      qed
    qed
  qed
qed

lemma idxmax_from_Some_not_None: "idxmax_from (Some b) ds \<noteq> None"
proof (induction ds arbitrary: b)
  case Nil
  then show ?case by simp
next
  case (Cons x ds)
  obtain i d where x: "x = (i, d)" by (cases x)
  obtain j m where b: "b = (j, m)" by (cases b)
  show ?case using Cons.IH by (cases d) (simp_all add: x b)
qed

lemma idxmax_from_None_iff:
  "idxmax_from None ds = None \<longleftrightarrow> (\<forall>x\<in>set ds. snd x = None)"
proof (induction ds)
  case Nil
  then show ?case by simp
next
  case (Cons x ds)
  obtain i d where x: "x = (i, d)" by (cases x)
  show ?case using Cons.IH idxmax_from_Some_not_None by (cases d) (auto simp: x)
qed

lemma idxmax_from_None_Some:
  "idxmax_from None ds = Some (j, m) \<Longrightarrow>
     \<exists>pre post. ds = pre @ (j, Some m) # post \<and> older pre m \<and> not_newer post m"
proof (induction ds)
  case Nil
  then show ?case by simp
next
  case (Cons x ds)
  obtain i d where x: "x = (i, d)" by (cases x)
  show ?case
  proof (cases d)
    case None
    with Cons.prems x have "idxmax_from None ds = Some (j, m)" by simp
    from Cons.IH[OF this] obtain pre post where p: "ds = pre @ (j, Some m) # post"
      "older pre m" "not_newer post m" by blast
    then have "x # ds = (x # pre) @ (j, Some m) # post \<and> older (x # pre) m \<and> not_newer post m"
      by (simp add: x None older_simps)
    then show ?thesis by blast
  next
    case (Some dv)
    with Cons.prems x have "idxmax_from (Some (i, dv)) ds = Some (j, m)" by simp
    from idxmax_from_Some[OF this] show ?thesis
    proof
      assume "(j, m) = (i, dv) \<and> not_newer ds dv"
      then have "x # ds = [] @ (j, Some m) # ds \<and> older [] m \<and> not_newer ds m"
        by (simp add: x Some older_simps)
      then show ?thesis by blast
    next
      assume "\<exists>pre post. ds = pre @ (j, Some m) # post \<and> m > dv \<and> older pre m \<and> not_newer post m"
      then obtain pre post where p: "ds = pre @ (j, Some m) # post" "m > dv" "older pre m"
        "not_newer post m" by blast
      then have "x # ds = (x # pre) @ (j, Some m) # post \<and> older (x # pre) m \<and> not_newer post m"
        by (simp add: x Some older_simps)
      then show ?thesis by blast
    qed
  qed
qed

lemma map_decompose:
  assumes "map f xs = pre @ y # post"
  shows "\<exists>pre' x post'. xs = pre' @ x # post' \<and> map f pre' = pre \<and> f x = y \<and> map f post' = post"
  using assms by (auto simp: map_eq_append_conv map_eq_Cons_conv)

text \<open>
  Claim C5, as amended.  When the matched company has more than one application record:
  (a, b) the first record, in row order, that the email mentions is selected alone, where
  a record is mentioned when its lowercased title (longer than 3 characters) occurs in the
  email text as a phrase or its first three words all occur, or when its lowercased
  \<open>Location\<close> cell (longer than 3 characters, in a table that has the column) occurs in
  the text; (c) else, if the text contains a bulk-rejection phrase, all records of the
  company are selected; (d) else the record with the greatest parseable application date
  is selected alone, every earlier record being strictly older, and when no date parses
  the first record is selected.
\<close>

theorem record_selector_chain:
  assumes "length matching_apps > 1"
  shows "(\<forall>idx. List.find (mentioned df email_text) matching_apps = Some idx \<longrightarrow>
            select_records env df email_text matching_apps = Some [idx])
       \<and> (List.find (mentioned df email_text) matching_apps = None
            \<and> (\<exists>phrase\<in>set bulk_rejection_phrases. contains_str email_text phrase) \<longrightarrow>
            select_records env df email_text matching_apps = Some matching_apps)
       \<and> (List.find (mentioned df email_text) matching_apps = None
            \<and> \<not> (\<exists>phrase\<in>set bulk_rejection_phrases. contains_str email_text phrase)
            \<and> has_Title df
            \<and> (\<exists>i\<in>set matching_apps. applied_on env df i \<noteq> None) \<longrightarrow>
            (\<exists>earlier idx later d.
               matching_apps = earlier @ idx # later
               \<and> select_records env df email_text matching_apps = Some [idx]
               \<and> applied_on env df idx = Some d
               \<and> (\<forall>i\<in>set earlier. \<forall>d'. applied_on env df i = Some d' \<longrightarrow> d' < d)
               \<and> (\<forall>i\<in>set later. \<forall>d'. applied_on env df i = Some d' \<longrightarrow> d' \<le> d)))
       \<and> (List.find (mentioned df email_text) matching_apps = None
            \<and> \<not> (\<exists>phrase\<in>set bulk_rejection_phrases. contains_str email_text phrase)
            \<and> (\<forall>i\<in>set matching_apps. applied_on env df i = None) \<longrightarrow>
            select_records env df email_text matching_apps = Some [hd matching_apps])"
proof (intro conjI impI allI)
  fix idx
  assume "List.find (mentioned df email_text) matching_apps = Some idx"
  with assms show "select_records env df email_text matching_apps = Some [idx]"
    by (simp add: select_records_def specific_match_find)
next
  assume "List.find (mentioned df email_text) matching_apps = None
            \<and> (\<exists>phrase\<in>set bulk_rejection_phrases. contains_str email_text phrase)"
  with assms show "select_records env df email_text matching_apps = Some matching_apps"
    by (simp add: select_records_def specific_match_find is_bulk_rejection_def list_ex_iff)
next
  let ?ds = "map (\<lambda>i. (i, to_datetime env (Date_Applied (rows df ! i)))) matching_apps"
  assume a: "List.find (mentioned df email_text) matching_apps = None
            \<and> \<not> (\<exists>phrase\<in>set bulk_rejection_phrases. contains_str email_text phrase)
            \<and> has_Title df
            \<and> (\<exists>i\<in>set matching_apps. applied_on env df i \<noteq> None)"
  then have "\<not> (\<forall>x\<in>set ?ds. snd x = None)" by (auto simp: applied_on_def)
  then obtain j m where jm: "idxmax_from None ?ds = Some (j, m)"
    using idxmax_from_None_iff[of ?ds] by (cases "idxmax_from None ?ds") auto
  from idxmax_from_None_Some[OF jm] obtain pre post where
    p: "?ds = pre @ (j, Some m) # post" "older pre m" "not_newer post m" by blast
  from map_decompose[OF p(1)] obtain earlier idx later where
    e: "matching_apps = earlier @ idx # later"
      "map (\<lambda>i. (i, to_datetime env (Date_Applied (rows df ! i)))) earlier = pre"
      "(idx, to_datetime env (Date_Applied (rows df ! idx))) = (j, Some m)"
      "map (\<lambda>i. (i, to_datetime env (Date_Applied (rows df ! i)))) later = post" by blast
  have sel: "select_records env df email_text matching_apps = Some [idx]"
    using assms a jm e(3)
    by (simp add: select_records_def specific_match_find is_bulk_rejection_def list_ex_iff
          idxmax_def)
  from e(3) have ij: "idx = j" and dm: "to_datetime env (Date_Applied (rows df ! idx)) = Some m"
    by auto
  have d: "applied_on env df idx = Some m" using dm by (simp add: applied_on_def)
  have o: "\<forall>i\<in>set earlier. \<forall>d'. applied_on env df i = Some d' \<longrightarrow> d' < m"
    using p(2) e(2) by (auto simp: older_def applied_on_def)
  have n: "\<forall>i\<in>set later. \<forall>d'. applied_on env df i = Some d' \<longrightarrow> d' \<le> m"
    using p(3) e(4) by (auto simp: not_newer_def applied_on_def)
  from e(1) sel d o n
  show "\<exists>earlier idx later d.
               matching_apps = earlier @ idx # later
               \<and> select_records env df email_text matching_apps = Some [idx]
               \<and> applied_on env df idx = Some d
               \<and> (\<forall>i\<in>set earlier. \<forall>d'. applied_on env df i = Some d' \<longrightarrow> d' < d)
               \<and> (\<forall>i\<in>set later. \<forall>d'. applied_on env df i = Some d' \<longrightarrow> d' \<le> d)"
    by blast
next
  let ?ds = "map (\<lambda>i. (i, to_datetime env (Date_Applied (rows df ! i)))) matching_apps"
  assume a: "List.find (mentioned df email_text) matching_apps = None
            \<and> \<not> (\<exists>phrase\<in>set bulk_rejection_phrases. contains_str email_text phrase)
            \<and> (\<forall>i\<in>set matching_apps. applied_on env df i = None)"
  then have "\<forall>x\<in>set ?ds. snd x = None" by (auto simp: applied_on_def)
  then have "idxmax_from None ?ds = None" using idxmax_from_None_iff[of ?ds] by simp
  moreover from assms have "take 1 matching_apps = [hd matching_apps]"
    by (cases matching_apps) simp_all
  ultimately show "select_records env df email_text matching_apps = Some [hd matching_apps]"
    using assms a
    by (simp add: select_records_def specific_match_find is_bulk_rejection_def list_ex_iff
          idxmax_def)
qed

text \<open>Claim C5 on the two applications to Acme: by title, in bulk, by date, without dates.\<close>

theorem record_selector_chain_witness:
  "select_records example_env example_store ''update software engineer role'' [0, 2] = Some [2]
   \<and> select_records example_env example_store ''we closed all positions'' [0, 2] = Some [0, 2]
   \<and> select_records example_env example_store ''update hello'' [0, 2] = Some [2]
   \<and> select_records (example_env\<lparr>to_datetime := (\<lambda>cell. None)\<rparr>) example_store ''update hello''
        [0, 2] = Some [0]"
proof -
  have len: "length [0::nat, 2] > 1" by simp
  have a: "List.find (mentioned example_store ''update software engineer role'') [0, 2] = Some 2"
    by code_simp
  have b: "List.find (mentioned example_store ''we closed all positions'') [0, 2] = None
           \<and> (\<exists>phrase\<in>set bulk_rejection_phrases. contains_str ''we closed all positions'' phrase)"
    by code_simp
  have c: "List.find (mentioned example_store ''update hello'') [0, 2] = None
           \<and> \<not> (\<exists>phrase\<in>set bulk_rejection_phrases. contains_str ''update hello'' phrase)
           \<and> has_Title example_store
           \<and> (\<exists>i\<in>set [0, 2]. applied_on example_env example_store i \<noteq> None)"
    by code_simp
  have d: "List.find (mentioned example_store ''update hello'') [0, 2] = None
           \<and> \<not> (\<exists>phrase\<in>set bulk_rejection_phrases. contains_str ''update hello'' phrase)
           \<and> (\<forall>i\<in>set [0, 2].
                 applied_on (example_env\<lparr>to_datetime := (\<lambda>cell. None)\<rparr>) example_store i = None)"
    by code_simp
  have c': "select_records example_env example_store ''update hello'' [0, 2] = Some [2]"
    by code_simp
  from record_selector_chain[OF len, of example_store "''update software engineer role''" example_env] a
  have r1: "select_records example_env example_store ''update software engineer role'' [0, 2]
              = Some [2]" by blast
  from record_selector_chain[OF len, of example_store "''we closed all positions''" example_env] b
  have r2: "select_records example_env example_store ''we closed all positions'' [0, 2]
              = Some [0, 2]" by blast
  from record_selector_chain[OF len, of example_store "''update hello''" example_env] c
  have r3: "\<exists>earlier idx later d. [0, 2] = earlier @ idx # later
              \<and> select_records example_env example_store ''update hello'' [0, 2] = Some [idx]
              \<and> applied_on example_env example_store idx = Some d" by blast
  from record_selector_chain[OF len, of example_store "''update hello''"
         "example_env\<lparr>to_datetime := (\<lambda>cell. None)\<rparr>"] d
  have r4: "select_records (example_env\<lparr>to_datetime := (\<lambda>cell. None)\<rparr>) example_store
              ''update hello'' [0, 2] = Some [hd [0, 2]]" by blast
  from r1 r2 r3 c' r4 show ?thesis by simp
qed

text \<open>
  Claim C5 as stated fails where it puts every title before every location: for an email
  that names the title of the second application and the location of the first, the loop
  stops at the first application, on its location.
\<close>

theorem location_before_title_counterexample:
  "find_matching_apps example_env located_store ''Acme'' = Some [0, 2]
   \<and> \<not> title_mentioned (lower (Title (rows located_store ! 0)))
         ''update software engineer role in boston''
   \<and> title_mentioned (lower (Title (rows located_store ! 2)))
         ''update software engineer role in boston''
   \<and> select_records example_env located_store ''update software engineer role in boston'' [0, 2]
       = Some [0]"
  by code_simp

section \<open>Idempotence of the scan\<close>







































lemma single_message_consistent: "consistent_mailbox env df [m]"
  by (auto simp: consistent_mailbox_def split: option.splits)






end
